theory Spec2Isabelle
  imports Complex_Main
begin

unbundle bit_operations_syntax

section \<open>JavaScript numbers\<close>

text \<open>
  Every number the emulator handles is an integer, so a JavaScript number is an \<^typ>\<open>int\<close>.
  \<^verbatim>\<open>x & y\<close>, \<^verbatim>\<open>x | y\<close>, \<^verbatim>\<open>x << n\<close>, \<^verbatim>\<open>x >> n\<close> and \<^verbatim>\<open>~x\<close> are \<open>AND\<close>, \<open>OR\<close>, \<open>push_bit\<close>,
  \<open>drop_bit\<close> and \<open>NOT\<close> on \<^typ>\<open>int\<close>: two's complement, as in JavaScript, and equal to it on
  the 32-bit range the registers stay in. Where the shifted value is not bounded by a mask
  or a byte, \<^verbatim>\<open>x << n\<close> is \<open>shl32\<close>, the signed 32-bit result that JavaScript gives. A
  value used as a condition is true when it is not zero. A store into a \<^verbatim>\<open>Uint8Array\<close> keeps the value modulo 256, a store outside the
  array's length is dropped, and \<^verbatim>\<open>undefined\<close> is stored as 0.
\<close>

definition truthy :: "int \<Rightarrow> bool" where
  "truthy v = (v \<noteq> 0)"

definition shl32 :: "int \<Rightarrow> nat \<Rightarrow> int" where
  "shl32 x n = signed_take_bit 31 (push_bit n x)"

definition toUint8 :: "int \<Rightarrow> int" where
  "toUint8 v = v mod 256"

definition typedStore :: "int \<Rightarrow> (int \<Rightarrow> int) \<Rightarrow> int \<Rightarrow> int \<Rightarrow> (int \<Rightarrow> int)" where
  "typedStore len arr i v = (if 0 \<le> i \<and> i < len then arr(i := toUint8 v) else arr)"

section \<open>input.js: Controller and Input\<close>

text \<open>
  The key and gamepad mappings of a \<^verbatim>\<open>Controller\<close> belong to the host and take no part in
  the strobe and shift logic; the record keeps the buttons, the strobe and the shift
  register.
\<close>

record buttons =
  btn_A :: int
  btn_B :: int
  btn_Select :: int
  btn_Start :: int
  btn_Up :: int
  btn_Down :: int
  btn_Left :: int
  btn_Right :: int

record controller =
  ctl_buttons :: buttons
  ctl_strobe :: int
  ctl_shiftRegister :: int

definition Controller_new :: controller where
  "Controller_new =
     \<lparr>ctl_buttons = \<lparr>btn_A = 0, btn_B = 0, btn_Select = 0, btn_Start = 0,
                      btn_Up = 0, btn_Down = 0, btn_Left = 0, btn_Right = 0\<rparr>,
      ctl_strobe = 0, ctl_shiftRegister = 0\<rparr>"

definition bit01 :: "int \<Rightarrow> int" where
  "bit01 b = (if truthy b then 1 else 0)"

definition reload :: "controller \<Rightarrow> controller" where
  "reload c =
     (let b = ctl_buttons c in
      c\<lparr>ctl_shiftRegister :=
           bit01 (btn_A b) OR
           push_bit 1 (bit01 (btn_B b)) OR
           push_bit 2 (bit01 (btn_Select b)) OR
           push_bit 3 (bit01 (btn_Start b)) OR
           push_bit 4 (bit01 (btn_Up b)) OR
           push_bit 5 (bit01 (btn_Down b)) OR
           push_bit 6 (bit01 (btn_Left b)) OR
           push_bit 7 (bit01 (btn_Right b))\<rparr>)"

definition Controller_write :: "int \<Rightarrow> controller \<Rightarrow> controller" where
  "Controller_write v c =
     (let c1 = c\<lparr>ctl_strobe := v AND 1\<rparr>
      in if truthy (ctl_strobe c1) then reload c1 else c1)"

definition Controller_read :: "controller \<Rightarrow> int \<times> controller" where
  "Controller_read c =
     (if truthy (ctl_strobe c)
      then (bit01 (btn_A (ctl_buttons c)) OR 0x40, c)
      else ((ctl_shiftRegister c AND 1) OR 0x40,
            c\<lparr>ctl_shiftRegister := drop_bit 1 (ctl_shiftRegister c)\<rparr>))"

definition setNamed :: "string \<Rightarrow> int \<Rightarrow> buttons \<Rightarrow> buttons option" where
  "setNamed name v b =
     (if name = ''A'' then Some (b\<lparr>btn_A := v\<rparr>)
      else if name = ''B'' then Some (b\<lparr>btn_B := v\<rparr>)
      else if name = ''Select'' then Some (b\<lparr>btn_Select := v\<rparr>)
      else if name = ''Start'' then Some (b\<lparr>btn_Start := v\<rparr>)
      else if name = ''Up'' then Some (b\<lparr>btn_Up := v\<rparr>)
      else if name = ''Down'' then Some (b\<lparr>btn_Down := v\<rparr>)
      else if name = ''Left'' then Some (b\<lparr>btn_Left := v\<rparr>)
      else if name = ''Right'' then Some (b\<lparr>btn_Right := v\<rparr>)
      else None)"

definition setButton :: "string \<Rightarrow> bool \<Rightarrow> controller \<Rightarrow> controller" where
  "setButton name pressed c =
     (case setNamed name (if pressed then 1 else 0) (ctl_buttons c) of
        None \<Rightarrow> c
      | Some b \<Rightarrow>
          (let c1 = c\<lparr>ctl_buttons := b\<rparr>
           in if truthy (ctl_strobe c1) then reload c1 else c1))"

record input =
  player1 :: controller
  player2 :: controller

definition Input_new :: input where
  "Input_new = \<lparr>player1 = Controller_new, player2 = Controller_new\<rparr>"

definition Input_write :: "int \<Rightarrow> int \<Rightarrow> input \<Rightarrow> input" where
  "Input_write addr v i =
     (if addr = 0x4016
      then i\<lparr>player1 := Controller_write v (player1 i),
             player2 := Controller_write v (player2 i)\<rparr>
      else i)"

definition Input_read :: "int \<Rightarrow> input \<Rightarrow> int \<times> input" where
  "Input_read addr i =
     (if addr = 0x4016
      then (let (v, c) = Controller_read (player1 i) in (v, i\<lparr>player1 := c\<rparr>))
      else if addr = 0x4017
      then (let (v, c) = Controller_read (player2 i) in (v, i\<lparr>player2 := c\<rparr>))
      else (0, i))"

section \<open>ppu.js: the register file of the PPU\<close>

text \<open>
  The registers, latches, VRAM (\<^verbatim>\<open>Uint8Array(0x4000)\<close>), OAM (\<^verbatim>\<open>Uint8Array(256)\<close>) and the two
  dot counters of the \<^verbatim>\<open>PPU\<close> class. The canvas context, the frame buffer and the palette
  are used by the rendering methods only. \<open>ppu_chrROM\<close> and \<open>ppu_cpuMemory\<close> are the
  constructor's arguments: the CHR table, which the class reads at indices
  \<open>0 .. 0x1FFF\<close> only, and the object that \<^verbatim>\<open>performDMA\<close> indexes, where \<open>None\<close> is
  \<^verbatim>\<open>undefined\<close>.
\<close>

record ppu =
  ppu_cpuMemory :: "int \<Rightarrow> int option"
  ppu_chrROM :: "int \<Rightarrow> int"
  ppu_ctrl :: int
  ppu_mask :: int
  ppu_status :: int
  ppu_oamAddr :: int
  ppu_scrollX :: int
  ppu_scrollY :: int
  ppu_addr :: int
  ppu_data :: int
  ppu_vram :: "int \<Rightarrow> int"
  ppu_oam :: "int \<Rightarrow> int"
  ppu_cycle :: int
  ppu_scanline :: int
  ppu_fineX :: int
  ppu_writeToggle :: int
  ppu_tempAddr :: int
  ppu_vramAddr :: int
  ppu_sprite0Hit :: bool

definition PPU_new :: "(int \<Rightarrow> int option) \<Rightarrow> (int \<Rightarrow> int) \<Rightarrow> ppu" where
  "PPU_new cpuMemory chrROM =
     \<lparr>ppu_cpuMemory = cpuMemory, ppu_chrROM = chrROM,
      ppu_ctrl = 0, ppu_mask = 0, ppu_status = 0, ppu_oamAddr = 0,
      ppu_scrollX = 0, ppu_scrollY = 0, ppu_addr = 0, ppu_data = 0,
      ppu_vram = (\<lambda>_. 0), ppu_oam = (\<lambda>_. 0),
      ppu_cycle = 0, ppu_scanline = 0,
      ppu_fineX = 0, ppu_writeToggle = 0, ppu_tempAddr = 0, ppu_vramAddr = 0,
      ppu_sprite0Hit = False\<rparr>"

definition fromUndefined :: "int option \<Rightarrow> int" where
  "fromUndefined v = (case v of None \<Rightarrow> 0 | Some n \<Rightarrow> n)"

definition performDMA :: "int \<Rightarrow> ppu \<Rightarrow> ppu" where
  "performDMA page p =
     (let base = shl32 page 8 in
      p\<lparr>ppu_oam :=
          fold (\<lambda>i oam. typedStore 256 oam (int i) (fromUndefined (ppu_cpuMemory p (base + int i))))
               [0 ..< 256] (ppu_oam p)\<rparr>)"

definition vramStep :: "ppu \<Rightarrow> int" where
  "vramStep p = (if truthy (ppu_ctrl p AND 0x04) then 32 else 1)"

definition readRegister :: "int \<Rightarrow> ppu \<Rightarrow> int \<times> ppu" where
  "readRegister addr p =
     (if addr = 0x2002 then
        (ppu_status p, p\<lparr>ppu_status := ppu_status p AND 0x7F, ppu_writeToggle := 0\<rparr>)
      else if addr = 0x2007 then
        (let patternTableAddr = ppu_vramAddr p AND 0x1FFF;
             d = (if patternTableAddr < 0x2000 then ppu_chrROM p patternTableAddr
                  else ppu_vram p (ppu_vramAddr p AND 0x3FFF))
         in (d, p\<lparr>ppu_vramAddr := ppu_vramAddr p + vramStep p\<rparr>))
      else (0, p))"

definition writeRegister :: "int \<Rightarrow> int \<Rightarrow> ppu \<Rightarrow> ppu" where
  "writeRegister addr v p =
     (if addr = 0x2000 then p\<lparr>ppu_ctrl := v\<rparr>
      else if addr = 0x2001 then p\<lparr>ppu_mask := v\<rparr>
      else if addr = 0x2003 then p\<lparr>ppu_oamAddr := v\<rparr>
      else if addr = 0x2004 then
        p\<lparr>ppu_oam := typedStore 256 (ppu_oam p) (ppu_oamAddr p) v,
          ppu_oamAddr := ppu_oamAddr p + 1\<rparr>
      else if addr = 0x2005 then
        (if ppu_writeToggle p = 0
         then p\<lparr>ppu_fineX := v AND 7,
                ppu_tempAddr := (ppu_tempAddr p AND 0x7FE0) OR drop_bit 3 v,
                ppu_writeToggle := 1\<rparr>
         else p\<lparr>ppu_tempAddr := (ppu_tempAddr p AND 0x0C1F) OR push_bit 2 (v AND 0xF8)
                                   OR push_bit 12 (v AND 7),
                ppu_writeToggle := 0\<rparr>)
      else if addr = 0x2006 then
        (if ppu_writeToggle p = 0
         then p\<lparr>ppu_tempAddr := (ppu_tempAddr p AND 0x00FF) OR shl32 v 8,
                ppu_writeToggle := 1\<rparr>
         else (let t = (ppu_tempAddr p AND 0xFF00) OR v
               in p\<lparr>ppu_tempAddr := t, ppu_vramAddr := t, ppu_writeToggle := 0\<rparr>))
      else if addr = 0x2007 then
        p\<lparr>ppu_vram := typedStore 0x4000 (ppu_vram p) (ppu_vramAddr p AND 0x3FFF) v,
          ppu_vramAddr := ppu_vramAddr p + vramStep p\<rparr>
      else if addr = 0x4014 then performDMA v p
      else p)"

section \<open>memory.js: the CPU bus\<close>

text \<open>
  \<^verbatim>\<open>Memory\<close> holds the 2 KiB RAM and references to the PPU, the APU, the controllers and
  the cartridge. The PPU and the controllers are the classes above. The cartridge class
  is not part of the repository, and the bus calls the APU through \<^verbatim>\<open>readRegister\<close> and
  \<^verbatim>\<open>writeRegister\<close>; both are parameters here: a state of any type and the methods
  the bus calls on it.
\<close>

record ('a, 'c) devices =
  apu_readRegister :: "int \<Rightarrow> 'a \<Rightarrow> int \<times> 'a"
  apu_writeRegister :: "int \<Rightarrow> int \<Rightarrow> 'a \<Rightarrow> 'a"
  cartridge_cpuRead :: "int \<Rightarrow> 'c \<Rightarrow> int \<times> 'c"
  cartridge_cpuWrite :: "int \<Rightarrow> int \<Rightarrow> 'c \<Rightarrow> 'c"

record ('a, 'c) memory =
  mem_ram :: "int \<Rightarrow> int"
  mem_cartridge :: 'c
  mem_ppu :: ppu
  mem_apu :: 'a
  mem_controllers :: input

definition Memory_reset :: "('a, 'c) memory \<Rightarrow> ('a, 'c) memory" where
  "Memory_reset m = m\<lparr>mem_ram := (\<lambda>_. 0)\<rparr>"

definition Memory_new :: "'c \<Rightarrow> ppu \<Rightarrow> 'a \<Rightarrow> input \<Rightarrow> ('a, 'c) memory" where
  "Memory_new cartridge p apu controllers =
     Memory_reset \<lparr>mem_ram = (\<lambda>_. 0), mem_cartridge = cartridge, mem_ppu = p,
                   mem_apu = apu, mem_controllers = controllers\<rparr>"

definition Memory_read :: "('a, 'c) devices \<Rightarrow> int \<Rightarrow> ('a, 'c) memory \<Rightarrow> int \<times> ('a, 'c) memory" where
  "Memory_read dev addr0 m =
     (let addr = addr0 AND 0xFFFF in
      if addr < 0x2000 then (mem_ram m (addr mod 0x0800), m)
      else if addr < 0x4000 then
        (let (v, p) = readRegister (addr mod 8) (mem_ppu m) in (v, m\<lparr>mem_ppu := p\<rparr>))
      else if addr = 0x4016 \<or> addr = 0x4017 then
        (let (v, i) = Input_read addr (mem_controllers m) in (v, m\<lparr>mem_controllers := i\<rparr>))
      else if addr \<ge> 0x4000 \<and> addr < 0x4020 then
        (let (v, a) = apu_readRegister dev addr (mem_apu m) in (v, m\<lparr>mem_apu := a\<rparr>))
      else if addr \<ge> 0x4020 then
        (let (v, c) = cartridge_cpuRead dev addr (mem_cartridge m) in (v, m\<lparr>mem_cartridge := c\<rparr>))
      else (0, m))"

definition Memory_write :: "('a, 'c) devices \<Rightarrow> int \<Rightarrow> int \<Rightarrow> ('a, 'c) memory \<Rightarrow> ('a, 'c) memory" where
  "Memory_write dev addr0 v0 m =
     (let addr = addr0 AND 0xFFFF; v = v0 AND 0xFF in
      if addr < 0x2000 then m\<lparr>mem_ram := typedStore 0x0800 (mem_ram m) (addr mod 0x0800) v\<rparr>
      else if addr < 0x4000 then m\<lparr>mem_ppu := writeRegister (addr mod 8) v (mem_ppu m)\<rparr>
      else if addr \<ge> 0x4000 \<and> addr < 0x4020 then
        (if addr = 0x4016 \<or> addr = 0x4017
         then m\<lparr>mem_controllers := Input_write addr v (mem_controllers m)\<rparr>
         else m\<lparr>mem_apu := apu_writeRegister dev addr v (mem_apu m)\<rparr>)
      else if addr \<ge> 0x4020 then m\<lparr>mem_cartridge := cartridge_cpuWrite dev addr v (mem_cartridge m)\<rparr>
      else m)"

text \<open>A sequence of bus writes, each an address and a value, in order.\<close>

definition Memory_writes :: "('a, 'c) devices \<Rightarrow> (int \<times> int) list \<Rightarrow> ('a, 'c) memory \<Rightarrow> ('a, 'c) memory" where
  "Memory_writes dev ws m = fold (\<lambda>(a, v). Memory_write dev a v) ws m"

section \<open>cpu.js: the CPU\<close>

text \<open>
  The registers of the \<^verbatim>\<open>CPU\<close> class. The CPU reaches memory through its \<^verbatim>\<open>memory\<close>
  reference only, so a machine is the registers together with the bus; \<open>m_console\<close>
  collects the opcodes that \<^verbatim>\<open>console.warn\<close> reported, oldest first.
\<close>

record cpu =
  cpu_A :: int
  cpu_X :: int
  cpu_Y :: int
  cpu_SP :: int
  cpu_PC :: int
  cpu_status :: int
  cpu_cycles :: int

record ('a, 'c) machine =
  m_cpu :: cpu
  m_memory :: "('a, 'c) memory"
  m_console :: "int list"

definition CPU_new :: cpu where
  "CPU_new = \<lparr>cpu_A = 0x00, cpu_X = 0x00, cpu_Y = 0x00, cpu_SP = 0xFD, cpu_PC = 0x0000,
              cpu_status = 0x24, cpu_cycles = 0\<rparr>"

definition FLAG_C :: int where "FLAG_C = push_bit 0 1"
definition FLAG_Z :: int where "FLAG_Z = push_bit 1 1"
definition FLAG_I :: int where "FLAG_I = push_bit 2 1"
definition FLAG_D :: int where "FLAG_D = push_bit 3 1"
definition FLAG_B :: int where "FLAG_B = push_bit 4 1"
definition FLAG_U :: int where "FLAG_U = push_bit 5 1"
definition FLAG_V :: int where "FLAG_V = push_bit 6 1"
definition FLAG_N :: int where "FLAG_N = push_bit 7 1"

definition CPU_read :: "('a, 'c) devices \<Rightarrow> int \<Rightarrow> ('a, 'c) machine \<Rightarrow> int \<times> ('a, 'c) machine" where
  "CPU_read dev addr s =
     (let (v, m) = Memory_read dev addr (m_memory s) in (v, s\<lparr>m_memory := m\<rparr>))"

definition CPU_write :: "('a, 'c) devices \<Rightarrow> int \<Rightarrow> int \<Rightarrow> ('a, 'c) machine \<Rightarrow> ('a, 'c) machine" where
  "CPU_write dev addr v s = s\<lparr>m_memory := Memory_write dev addr v (m_memory s)\<rparr>"

definition readWord :: "('a, 'c) devices \<Rightarrow> int \<Rightarrow> ('a, 'c) machine \<Rightarrow> int \<times> ('a, 'c) machine" where
  "readWord dev addr s =
     (let (low, s1) = CPU_read dev addr s;
          (high, s2) = CPU_read dev (addr + 1) s1
      in (push_bit 8 high OR low, s2))"

definition CPU_reset :: "('a, 'c) devices \<Rightarrow> ('a, 'c) machine \<Rightarrow> ('a, 'c) machine" where
  "CPU_reset dev s =
     (let s1 = s\<lparr>m_cpu := (m_cpu s)\<lparr>cpu_A := 0, cpu_X := 0, cpu_Y := 0, cpu_SP := 0xFD,
                                    cpu_status := 0x24\<rparr>\<rparr>;
          (w, s2) = readWord dev 0xFFFC s1
      in s2\<lparr>m_cpu := (m_cpu s2)\<lparr>cpu_PC := w\<rparr>\<rparr>)"

definition setFlag :: "int \<Rightarrow> bool \<Rightarrow> ('a, 'c) machine \<Rightarrow> ('a, 'c) machine" where
  "setFlag flag v s =
     (if v then s\<lparr>m_cpu := (m_cpu s)\<lparr>cpu_status := cpu_status (m_cpu s) OR flag\<rparr>\<rparr>
      else s\<lparr>m_cpu := (m_cpu s)\<lparr>cpu_status := cpu_status (m_cpu s) AND NOT flag\<rparr>\<rparr>)"

definition getFlag :: "int \<Rightarrow> ('a, 'c) machine \<Rightarrow> bool" where
  "getFlag flag s = (cpu_status (m_cpu s) AND flag \<noteq> 0)"

definition getImmediate :: "('a, 'c) devices \<Rightarrow> ('a, 'c) machine \<Rightarrow> int \<times> ('a, 'c) machine" where
  "getImmediate dev s =
     (let pc = cpu_PC (m_cpu s)
      in CPU_read dev pc (s\<lparr>m_cpu := (m_cpu s)\<lparr>cpu_PC := pc + 1\<rparr>\<rparr>))"

definition getZeroPageAddr :: "('a, 'c) devices \<Rightarrow> ('a, 'c) machine \<Rightarrow> int \<times> ('a, 'c) machine" where
  "getZeroPageAddr dev s =
     (let pc = cpu_PC (m_cpu s)
      in CPU_read dev pc (s\<lparr>m_cpu := (m_cpu s)\<lparr>cpu_PC := pc + 1\<rparr>\<rparr>))"

definition getAbsoluteAddr :: "('a, 'c) devices \<Rightarrow> ('a, 'c) machine \<Rightarrow> int \<times> ('a, 'c) machine" where
  "getAbsoluteAddr dev s =
     (let (addr, s1) = readWord dev (cpu_PC (m_cpu s)) s
      in (addr, s1\<lparr>m_cpu := (m_cpu s1)\<lparr>cpu_PC := cpu_PC (m_cpu s1) + 2\<rparr>\<rparr>))"

definition setZN :: "int \<Rightarrow> ('a, 'c) machine \<Rightarrow> ('a, 'c) machine" where
  "setZN v s = setFlag FLAG_N (truthy (v AND 0x80)) (setFlag FLAG_Z (v = 0) s)"

definition adc :: "int \<Rightarrow> ('a, 'c) machine \<Rightarrow> ('a, 'c) machine" where
  "adc v s =
     (let carry = (if getFlag FLAG_C s then 1 else 0);
          a = cpu_A (m_cpu s);
          result = a + v + carry;
          s1 = setFlag FLAG_C (result > 0xFF) s;
          s2 = setFlag FLAG_Z (result AND 0xFF = 0) s1;
          s3 = setFlag FLAG_N (truthy (result AND 0x80)) s2;
          s4 = setFlag FLAG_V (truthy ((NOT (a XOR v) AND (a XOR result)) AND 0x80)) s3
      in s4\<lparr>m_cpu := (m_cpu s4)\<lparr>cpu_A := result AND 0xFF\<rparr>\<rparr>)"

definition sbc :: "int \<Rightarrow> ('a, 'c) machine \<Rightarrow> ('a, 'c) machine" where
  "sbc v s = adc (NOT v AND 0xFF) s"

definition push :: "('a, 'c) devices \<Rightarrow> int \<Rightarrow> ('a, 'c) machine \<Rightarrow> ('a, 'c) machine" where
  "push dev v s =
     (let sp = cpu_SP (m_cpu s)
      in CPU_write dev (0x0100 + sp) v (s\<lparr>m_cpu := (m_cpu s)\<lparr>cpu_SP := sp - 1\<rparr>\<rparr>))"

definition pull :: "('a, 'c) devices \<Rightarrow> ('a, 'c) machine \<Rightarrow> int \<times> ('a, 'c) machine" where
  "pull dev s =
     (let sp = cpu_SP (m_cpu s) + 1
      in CPU_read dev (0x0100 + sp) (s\<lparr>m_cpu := (m_cpu s)\<lparr>cpu_SP := sp\<rparr>\<rparr>))"

definition pushWord :: "('a, 'c) devices \<Rightarrow> int \<Rightarrow> ('a, 'c) machine \<Rightarrow> ('a, 'c) machine" where
  "pushWord dev v s = push dev (v AND 0xFF) (push dev (drop_bit 8 v AND 0xFF) s)"

definition warn :: "int \<Rightarrow> ('a, 'c) machine \<Rightarrow> ('a, 'c) machine" where
  "warn opcode s = s\<lparr>m_console := m_console s @ [opcode]\<rparr>"

text \<open>\<^verbatim>\<open>execute\<close> as the class body has it: three opcodes and the default.\<close>

definition execute :: "('a, 'c) devices \<Rightarrow> int \<Rightarrow> ('a, 'c) machine \<Rightarrow> int \<times> ('a, 'c) machine" where
  "execute dev opcode s =
     (if opcode = 0xA9 then
        (let pc = cpu_PC (m_cpu s);
             (v, s1) = CPU_read dev pc (s\<lparr>m_cpu := (m_cpu s)\<lparr>cpu_PC := pc + 1\<rparr>\<rparr>);
             s2 = s1\<lparr>m_cpu := (m_cpu s1)\<lparr>cpu_A := v\<rparr>\<rparr>
         in (2, setZN (cpu_A (m_cpu s2)) s2))
      else if opcode = 0xAA then
        (let s1 = s\<lparr>m_cpu := (m_cpu s)\<lparr>cpu_X := cpu_A (m_cpu s)\<rparr>\<rparr>
         in (2, setZN (cpu_X (m_cpu s1)) s1))
      else if opcode = 0xE8 then
        (let s1 = s\<lparr>m_cpu := (m_cpu s)\<lparr>cpu_X := (cpu_X (m_cpu s) + 1) AND 0xFF\<rparr>\<rparr>
         in (2, setZN (cpu_X (m_cpu s1)) s1))
      else (2, warn opcode s))"

definition step :: "('a, 'c) devices \<Rightarrow> ('a, 'c) machine \<Rightarrow> int \<times> ('a, 'c) machine" where
  "step dev s =
     (let pc = cpu_PC (m_cpu s);
          (opcode, s1) = CPU_read dev pc (s\<lparr>m_cpu := (m_cpu s)\<lparr>cpu_PC := pc + 1\<rparr>\<rparr>)
      in execute dev opcode s1)"

text \<open>
  The second \<^verbatim>\<open>execute\<close> of cpu.js, the one written with the addressing helpers, and
  \<^verbatim>\<open>step\<close> running it.
\<close>

definition execute2 :: "('a, 'c) devices \<Rightarrow> int \<Rightarrow> ('a, 'c) machine \<Rightarrow> int \<times> ('a, 'c) machine" where
  "execute2 dev opcode s =
     (if opcode = 0xA9 then
        (let (v, s1) = getImmediate dev s;
             s2 = s1\<lparr>m_cpu := (m_cpu s1)\<lparr>cpu_A := v\<rparr>\<rparr>
         in (2, setZN (cpu_A (m_cpu s2)) s2))
      else if opcode = 0x85 then
        (let (addr, s1) = getZeroPageAddr dev s
         in (3, CPU_write dev addr (cpu_A (m_cpu s1)) s1))
      else if opcode = 0x8D then
        (let (addr, s1) = getAbsoluteAddr dev s
         in (4, CPU_write dev addr (cpu_A (m_cpu s1)) s1))
      else if opcode = 0x4C then
        (let (addr, s1) = getAbsoluteAddr dev s
         in (3, s1\<lparr>m_cpu := (m_cpu s1)\<lparr>cpu_PC := addr\<rparr>\<rparr>))
      else if opcode = 0x00 then
        (let s1 = s\<lparr>m_cpu := (m_cpu s)\<lparr>cpu_PC := cpu_PC (m_cpu s) + 1\<rparr>\<rparr>;
             s2 = pushWord dev (cpu_PC (m_cpu s1)) s1;
             s3 = push dev (cpu_status (m_cpu s2) OR FLAG_B) s2;
             s4 = setFlag FLAG_I True s3;
             (w, s5) = readWord dev 0xFFFE s4
         in (7, s5\<lparr>m_cpu := (m_cpu s5)\<lparr>cpu_PC := w\<rparr>\<rparr>))
      else if opcode = 0x69 then
        (let (v, s1) = getImmediate dev s in (2, adc v s1))
      else if opcode = 0xE9 then
        (let (v, s1) = getImmediate dev s in (2, sbc v s1))
      else if opcode = 0x48 then
        (3, push dev (cpu_A (m_cpu s)) s)
      else if opcode = 0x68 then
        (let (v, s1) = pull dev s;
             s2 = s1\<lparr>m_cpu := (m_cpu s1)\<lparr>cpu_A := v\<rparr>\<rparr>
         in (4, setZN (cpu_A (m_cpu s2)) s2))
      else (2, warn opcode s))"

definition step2 :: "('a, 'c) devices \<Rightarrow> ('a, 'c) machine \<Rightarrow> int \<times> ('a, 'c) machine" where
  "step2 dev s =
     (let pc = cpu_PC (m_cpu s);
          (opcode, s1) = CPU_read dev pc (s\<lparr>m_cpu := (m_cpu s)\<lparr>cpu_PC := pc + 1\<rparr>\<rparr>)
      in execute2 dev opcode s1)"

section \<open>apu.js: the DMC channel and the APU registers\<close>

text \<open>
  The delta modulation channel. Its Web Audio gain node belongs to the host. The
  constructor leaves \<^verbatim>\<open>irqEnabled\<close>, \<^verbatim>\<open>loop\<close>, \<^verbatim>\<open>rate\<close>, \<^verbatim>\<open>sampleBuffer\<close> and \<^verbatim>\<open>currentAddress\<close>
  unset: the two flags are then false where they are tested, and the three numbers are
  written before the first read, so they start at 0 here. The channel reads samples
  through its \<^verbatim>\<open>memory\<close> reference: \<open>rd\<close> is that bus read, on a bus state of any type.
  \<^verbatim>\<open>step\<close> is its two blocks in turn: \<open>refill\<close> when no bits remain, then \<open>shiftBit\<close>.
\<close>

record dmc =
  dmc_enabled :: bool
  dmc_dmcIRQ :: bool
  dmc_irqEnabled :: bool
  dmc_loop :: bool
  dmc_rate :: int
  dmc_sampleAddress :: int
  dmc_sampleLength :: int
  dmc_currentAddress :: int
  dmc_currentLength :: int
  dmc_sampleBuffer :: int
  dmc_shiftRegister :: int
  dmc_bitsRemaining :: int
  dmc_bufferEmpty :: bool
  dmc_outputLevel :: int

definition DMCChannel_new :: dmc where
  "DMCChannel_new =
     \<lparr>dmc_enabled = False, dmc_dmcIRQ = False, dmc_irqEnabled = False, dmc_loop = False,
      dmc_rate = 0, dmc_sampleAddress = 0xC000, dmc_sampleLength = 1,
      dmc_currentAddress = 0, dmc_currentLength = 0, dmc_sampleBuffer = 0,
      dmc_shiftRegister = 0, dmc_bitsRemaining = 0, dmc_bufferEmpty = True,
      dmc_outputLevel = 64\<rparr>"

definition DMC_write :: "int \<Rightarrow> int \<Rightarrow> dmc \<Rightarrow> dmc" where
  "DMC_write addr v d =
     (if addr = 0x4010 then
        d\<lparr>dmc_irqEnabled := (v AND 0x80 \<noteq> 0), dmc_loop := (v AND 0x40 \<noteq> 0),
          dmc_rate := v AND 0x0F\<rparr>
      else if addr = 0x4011 then d\<lparr>dmc_outputLevel := v AND 0x7F\<rparr>
      else if addr = 0x4012 then d\<lparr>dmc_sampleAddress := 0xC000 + (v * 64)\<rparr>
      else if addr = 0x4013 then d\<lparr>dmc_sampleLength := (v * 16) + 1\<rparr>
      else d)"

definition restartSample :: "dmc \<Rightarrow> dmc" where
  "restartSample d =
     d\<lparr>dmc_currentAddress := dmc_sampleAddress d, dmc_currentLength := dmc_sampleLength d\<rparr>"

definition DMC_setEnabled :: "int \<Rightarrow> dmc \<Rightarrow> dmc" where
  "DMC_setEnabled on d =
     (let d1 = d\<lparr>dmc_enabled := truthy on\<rparr>
      in if dmc_enabled d1 \<and> dmc_currentLength d1 = 0 then restartSample d1 else d1)"

definition fetchSample :: "(int \<Rightarrow> 'm \<Rightarrow> int \<times> 'm) \<Rightarrow> dmc \<times> 'm \<Rightarrow> dmc \<times> 'm" where
  "fetchSample rd dm =
     (let (d, m) = dm in
      if dmc_currentLength d > 0 then
        (let (b, m1) = rd (dmc_currentAddress d) m;
             d1 = d\<lparr>dmc_sampleBuffer := b, dmc_currentAddress := dmc_currentAddress d + 1\<rparr>;
             d2 = (if dmc_currentAddress d1 > 0xFFFF then d1\<lparr>dmc_currentAddress := 0x8000\<rparr> else d1);
             d3 = d2\<lparr>dmc_currentLength := dmc_currentLength d2 - 1, dmc_bufferEmpty := False\<rparr>
         in if dmc_currentLength d3 = 0 then
              (if dmc_loop d3 then (restartSample d3, m1)
               else if dmc_irqEnabled d3 then (d3\<lparr>dmc_dmcIRQ := True\<rparr>, m1)
               else (d3, m1))
            else (d3, m1))
      else (d, m))"

definition shiftBit :: "dmc \<Rightarrow> dmc" where
  "shiftBit d =
     (if dmc_bitsRemaining d > 0 then
        (let d1 = (if truthy (dmc_shiftRegister d AND 1)
                   then (if dmc_outputLevel d \<le> 125
                         then d\<lparr>dmc_outputLevel := dmc_outputLevel d + 2\<rparr> else d)
                   else (if dmc_outputLevel d \<ge> 2
                         then d\<lparr>dmc_outputLevel := dmc_outputLevel d - 2\<rparr> else d))
         in d1\<lparr>dmc_shiftRegister := drop_bit 1 (dmc_shiftRegister d1),
               dmc_bitsRemaining := dmc_bitsRemaining d1 - 1\<rparr>)
      else d)"

definition refill :: "(int \<Rightarrow> 'm \<Rightarrow> int \<times> 'm) \<Rightarrow> dmc \<times> 'm \<Rightarrow> dmc \<times> 'm" where
  "refill rd dm =
     (let (d, m) = dm in
      if dmc_bitsRemaining d = 0 then
        (let (d1, m1) = (if dmc_bufferEmpty d then fetchSample rd (d, m) else (d, m))
         in if \<not> dmc_bufferEmpty d1
            then (d1\<lparr>dmc_shiftRegister := dmc_sampleBuffer d1,
                     dmc_bitsRemaining := 8, dmc_bufferEmpty := True\<rparr>, m1)
            else (d1, m1))
      else (d, m))"

definition DMC_step :: "(int \<Rightarrow> 'm \<Rightarrow> int \<times> 'm) \<Rightarrow> dmc \<times> 'm \<Rightarrow> dmc \<times> 'm" where
  "DMC_step rd dm =
     (if \<not> dmc_enabled (fst dm) then dm
      else (let (d1, m1) = refill rd dm in (shiftBit d1, m1)))"

text \<open>
  The calls a program can make on the channel: a register write (through \<^verbatim>\<open>APU.write\<close>),
  the enable bit of 0x4015 (through \<^verbatim>\<open>setChannelEnable\<close>), and a step.
\<close>

datatype dmc_call = DmcWrite int int | DmcSetEnabled int | DmcStep

fun dmc_do :: "(int \<Rightarrow> 'm \<Rightarrow> int \<times> 'm) \<Rightarrow> dmc_call \<Rightarrow> dmc \<times> 'm \<Rightarrow> dmc \<times> 'm" where
  "dmc_do rd (DmcWrite addr v) dm = (DMC_write addr v (fst dm), snd dm)"
| "dmc_do rd (DmcSetEnabled on) dm = (DMC_setEnabled on (fst dm), snd dm)"
| "dmc_do rd DmcStep dm = DMC_step rd dm"

definition dmc_run :: "(int \<Rightarrow> 'm \<Rightarrow> int \<times> 'm) \<Rightarrow> dmc_call list \<Rightarrow> dmc \<times> 'm \<Rightarrow> dmc \<times> 'm" where
  "dmc_run rd calls dm = fold (dmc_do rd) calls dm"

text \<open>
  The APU's register interface. The pulse, triangle and noise channels are stubs whose
  only state is \<^verbatim>\<open>enabled\<close>; their \<^verbatim>\<open>write\<close> does nothing.
\<close>

record apu =
  apu_pulse1_enabled :: bool
  apu_pulse2_enabled :: bool
  apu_triangle_enabled :: bool
  apu_noise_enabled :: bool
  apu_dmc :: dmc
  apu_cycles :: int
  apu_frameStep :: int
  apu_frameCounterMode :: int
  apu_frameIRQ :: bool

definition APU_new :: apu where
  "APU_new =
     \<lparr>apu_pulse1_enabled = False, apu_pulse2_enabled = False, apu_triangle_enabled = False,
      apu_noise_enabled = False, apu_dmc = DMCChannel_new, apu_cycles = 0, apu_frameStep = 0,
      apu_frameCounterMode = 0, apu_frameIRQ = False\<rparr>"

definition setChannelEnable :: "int \<Rightarrow> apu \<Rightarrow> apu" where
  "setChannelEnable v a =
     a\<lparr>apu_pulse1_enabled := truthy (v AND 1),
       apu_pulse2_enabled := truthy (v AND 2),
       apu_triangle_enabled := truthy (v AND 4),
       apu_noise_enabled := truthy (v AND 8),
       apu_dmc := DMC_setEnabled (v AND 16) (apu_dmc a)\<rparr>"

definition APU_write :: "int \<Rightarrow> int \<Rightarrow> apu \<Rightarrow> apu" where
  "APU_write addr v a =
     (if addr \<ge> 0x4000 \<and> addr \<le> 0x4003 then a
      else if addr \<ge> 0x4004 \<and> addr \<le> 0x4007 then a
      else if addr \<ge> 0x4008 \<and> addr \<le> 0x400B then a
      else if addr \<ge> 0x400C \<and> addr \<le> 0x400F then a
      else if addr \<ge> 0x4010 \<and> addr \<le> 0x4013 then a\<lparr>apu_dmc := DMC_write addr v (apu_dmc a)\<rparr>
      else if addr = 0x4015 then setChannelEnable v a
      else if addr = 0x4017 then
        (let a1 = a\<lparr>apu_frameCounterMode := drop_bit 7 v AND 1\<rparr>
         in if truthy (v AND 0x40) then a1\<lparr>apu_frameIRQ := False\<rparr> else a1)
      else a)"

definition APU_read :: "int \<Rightarrow> apu \<Rightarrow> int \<times> apu" where
  "APU_read addr a =
     (if addr = 0x4015 then
        ((if apu_pulse1_enabled a then 1 else 0) OR
         (if apu_pulse2_enabled a then 2 else 0) OR
         (if apu_triangle_enabled a then 4 else 0) OR
         (if apu_noise_enabled a then 8 else 0) OR
         (if dmc_enabled (apu_dmc a) then 16 else 0),
         a\<lparr>apu_frameIRQ := False\<rparr>)
      else (0, a))"

section \<open>emulator.js: the scheduler\<close>

text \<open>
  The \<^verbatim>\<open>Emulator\<close> of apu.js drives pluggable components through the interface its header
  documents. The components are parameters: \<open>'w\<close> is the state of everything outside the
  emulator object (the components and the host's sinks), and each method the scheduler
  calls is a function on it. \<^verbatim>\<open>_pumpAudio\<close> and the video sink only move samples and
  pixels to the host and are state transformers on \<open>'w\<close>. The constructor ends with
  \<^verbatim>\<open>reset()\<close>, which resets the components: \<open>Emulator_new\<close> takes the world after it.
  \<^verbatim>\<open>cpuCyclesPerFrame\<close> is \<^verbatim>\<open>CPU_HZ / FPS\<close>, not a whole number; it is only ever compared
  with whole cycle counts, and is kept as the exact quotient.
\<close>

datatype region = NTSC | PAL

definition CPU_HZ :: "region \<Rightarrow> rat" where
  "CPU_HZ r = (case r of NTSC \<Rightarrow> 1789773 | PAL \<Rightarrow> 1662607)"

definition PPU_PER_CPU :: "region \<Rightarrow> int" where
  "PPU_PER_CPU r = (case r of NTSC \<Rightarrow> 3 | PAL \<Rightarrow> 3)"

definition FPS :: "region \<Rightarrow> rat" where
  "FPS r = (case r of NTSC \<Rightarrow> 60 | PAL \<Rightarrow> 50)"

record 'w components =
  cpuStep :: "'w \<Rightarrow> int \<times> 'w"
  cpuNmi :: "'w \<Rightarrow> 'w"
  cpuIrq :: "bool \<Rightarrow> 'w \<Rightarrow> 'w"
  ppuStep :: "'w \<Rightarrow> bool \<times> 'w"
  ppuNmiLine :: "'w \<Rightarrow> bool"
  apuStep :: "int \<Rightarrow> 'w \<Rightarrow> 'w"
  apuIrqLine :: "'w \<Rightarrow> bool"
  mapperIrqLine :: "'w \<Rightarrow> bool"
  busIrqLine :: "'w \<Rightarrow> bool"
  pumpAudio :: "'w \<Rightarrow> 'w"
  videoSink :: "'w \<Rightarrow> 'w"

record 'w emulator =
  emu_region :: region
  emu_cpuCyclesPerFrame :: rat
  emu_nmiPrev :: bool
  emu_frameCounter :: int
  emu_world :: 'w

definition Emulator_new :: "region \<Rightarrow> 'w \<Rightarrow> 'w emulator" where
  "Emulator_new r w =
     \<lparr>emu_region = r, emu_cpuCyclesPerFrame = CPU_HZ r / FPS r, emu_nmiPrev = False,
      emu_frameCounter = 0, emu_world = w\<rparr>"

record FrameStats =
  cpuCyclesRun :: int
  ppuCyclesRun :: int
  framesCompleted :: int
  frameIndex :: int

text \<open>The local variables of \<^verbatim>\<open>runFrame\<close>, and the emulator they run on.\<close>

record 'w frame =
  f_cpuCyclesRun :: int
  f_ppuCyclesRun :: int
  f_framesCompleted :: int
  f_emu :: "'w emulator"

definition serviceNMI :: "'w components \<Rightarrow> 'w emulator \<Rightarrow> 'w emulator" where
  "serviceNMI C e =
     (let nmiLevel = ppuNmiLine C (emu_world e);
          e1 = (if nmiLevel \<and> \<not> emu_nmiPrev e then e\<lparr>emu_world := cpuNmi C (emu_world e)\<rparr> else e)
      in e1\<lparr>emu_nmiPrev := nmiLevel\<rparr>)"

definition serviceIRQ :: "'w components \<Rightarrow> 'w emulator \<Rightarrow> 'w emulator" where
  "serviceIRQ C e =
     (let w = emu_world e;
          irqAsserted = (apuIrqLine C w \<or> mapperIrqLine C w \<or> busIrqLine C w)
      in e\<lparr>emu_world := cpuIrq C irqAsserted w\<rparr>)"

definition ppuTick :: "'w components \<Rightarrow> 'w frame \<Rightarrow> 'w frame" where
  "ppuTick C f =
     (let e = f_emu f;
          (newFrame, w1) = ppuStep C (emu_world e);
          e1 = serviceNMI C (e\<lparr>emu_world := w1\<rparr>);
          f1 = f\<lparr>f_ppuCyclesRun := f_ppuCyclesRun f + 1, f_emu := e1\<rparr>
      in if newFrame
         then f1\<lparr>f_framesCompleted := f_framesCompleted f1 + 1,
                 f_emu := e1\<lparr>emu_world := videoSink C (emu_world e1)\<rparr>\<rparr>
         else f1)"

fun ppuTicks :: "'w components \<Rightarrow> nat \<Rightarrow> 'w frame \<Rightarrow> 'w frame" where
  "ppuTicks C 0 f = f"
| "ppuTicks C (Suc n) f = ppuTicks C n (ppuTick C f)"

definition frameBody :: "'w components \<Rightarrow> 'w frame \<Rightarrow> 'w frame" where
  "frameBody C f =
     (let e = f_emu f;
          (c, w1) = cpuStep C (emu_world e);
          f1 = f\<lparr>f_cpuCyclesRun := f_cpuCyclesRun f + c, f_emu := e\<lparr>emu_world := w1\<rparr>\<rparr>;
          f2 = ppuTicks C (nat (c * PPU_PER_CPU (emu_region e))) f1;
          e2 = f_emu f2;
          e3 = e2\<lparr>emu_world := pumpAudio C (apuStep C c (emu_world e2))\<rparr>
      in f2\<lparr>f_emu := serviceIRQ C e3\<rparr>)"

partial_function (option) frameLoop :: "'w components \<Rightarrow> 'w frame \<Rightarrow> 'w frame option" where
  "frameLoop C f =
     (if f_framesCompleted f = 0 \<and> of_int (f_cpuCyclesRun f) < emu_cpuCyclesPerFrame (f_emu f)
      then frameLoop C (frameBody C f)
      else Some f)"

definition runFrame :: "'w components \<Rightarrow> 'w emulator \<Rightarrow> (FrameStats \<times> 'w emulator) option" where
  "runFrame C e =
     (case frameLoop C \<lparr>f_cpuCyclesRun = 0, f_ppuCyclesRun = 0, f_framesCompleted = 0, f_emu = e\<rparr> of
        None \<Rightarrow> None
      | Some f \<Rightarrow>
          (let e1 = (f_emu f)\<lparr>emu_frameCounter := emu_frameCounter (f_emu f) + f_framesCompleted f\<rparr>
           in Some (\<lparr>cpuCyclesRun = f_cpuCyclesRun f, ppuCyclesRun = f_ppuCyclesRun f,
                     framesCompleted = f_framesCompleted f, frameIndex = emu_frameCounter e1\<rparr>,
                    e1)))"

section \<open>Components for the closed examples\<close>

text \<open>
  The examples below run the code on concrete parts. The bus gets the repository's APU,
  its \<^verbatim>\<open>read\<close> and \<^verbatim>\<open>write\<close> answering the calls \<^verbatim>\<open>readRegister\<close> and \<^verbatim>\<open>writeRegister\<close>, and
  a read-only cartridge given by the byte at each CPU address. The PPU is built on a
  \<^verbatim>\<open>Memory\<close> object, which has no indexed elements, and a zero CHR table.
\<close>

definition repoDevices :: "(apu, int \<Rightarrow> int) devices" where
  "repoDevices =
     \<lparr>apu_readRegister = APU_read, apu_writeRegister = APU_write,
      cartridge_cpuRead = (\<lambda>addr c. (c addr, c)),
      cartridge_cpuWrite = (\<lambda>addr v c. c)\<rparr>"

definition bootMemory :: "(int \<Rightarrow> int) \<Rightarrow> (apu, int \<Rightarrow> int) memory" where
  "bootMemory prg = Memory_new prg (PPU_new (\<lambda>_. None) (\<lambda>_. 0)) APU_new Input_new"

definition bootMachine :: "(int \<Rightarrow> int) \<Rightarrow> (apu, int \<Rightarrow> int) machine" where
  "bootMachine prg = \<lparr>m_cpu = CPU_new, m_memory = bootMemory prg, m_console = []\<rparr>"

text \<open>A sequence of \<open>n\<close> bus reads of one address: the values in order, and the bus after them.\<close>

fun Memory_reads :: "('a, 'c) devices \<Rightarrow> int \<Rightarrow> nat \<Rightarrow> ('a, 'c) memory \<Rightarrow> int list \<times> ('a, 'c) memory" where
  "Memory_reads dev addr 0 m = ([], m)"
| "Memory_reads dev addr (Suc n) m =
     (let (v, m1) = Memory_read dev addr m;
          (vs, m2) = Memory_reads dev addr n m1
      in (v # vs, m2))"

text \<open>
  For the scheduler: the repository's CPU (the class's \<^verbatim>\<open>step\<close>) on that bus, and a PPU that
  follows the interface of the emulator's header, counting 341 dots on each of 262 lines,
  the period of the counters in \<^verbatim>\<open>PPU.step\<close>, and reporting a new frame when the count
  wraps. The world is the machine and the dot count; interrupts, audio and video are
  left idle.
\<close>

definition dotsPerFrame :: int where
  "dotsPerFrame = 341 * 262"

definition dotStep :: "int \<Rightarrow> bool \<times> int" where
  "dotStep d = (if d + 1 \<ge> dotsPerFrame then (True, 0) else (False, d + 1))"

definition repoComponents :: "((apu, int \<Rightarrow> int) machine \<times> int) components" where
  "repoComponents =
     \<lparr>cpuStep = (\<lambda>(s, d). let (c, s1) = step repoDevices s in (c, (s1, d))),
      cpuNmi = (\<lambda>w. w),
      cpuIrq = (\<lambda>level w. w),
      ppuStep = (\<lambda>(s, d). let (newFrame, d1) = dotStep d in (newFrame, (s, d1))),
      ppuNmiLine = (\<lambda>w. False),
      apuStep = (\<lambda>c w. w),
      apuIrqLine = (\<lambda>w. False),
      mapperIrqLine = (\<lambda>w. False),
      busIrqLine = (\<lambda>w. False),
      pumpAudio = (\<lambda>w. w),
      videoSink = (\<lambda>w. w)\<rparr>"

section \<open>Predicates and states used in the proofs\<close>

text \<open>The DMC output level is a 7-bit value.\<close>

definition levelOk :: "dmc \<Rightarrow> bool" where
  "levelOk d \<longleftrightarrow> 0 \<le> dmc_outputLevel d \<and> dmc_outputLevel d \<le> 127"

text \<open>
  What holds of the locals of \<^verbatim>\<open>runFrame\<close> in the NTSC region after each pass of its loop,
  when every instruction takes from 1 to 7 cycles.
\<close>

definition frameInv :: "'w frame \<Rightarrow> bool" where
  "frameInv f \<longleftrightarrow>
     emu_region (f_emu f) = NTSC \<and>
     emu_cpuCyclesPerFrame (f_emu f) = CPU_HZ NTSC / FPS NTSC \<and>
     f_ppuCyclesRun f = 3 * f_cpuCyclesRun f \<and>
     1 \<le> f_cpuCyclesRun f \<and> f_cpuCyclesRun f \<le> 29836 \<and>
     0 \<le> f_framesCompleted f \<and> f_framesCompleted f \<le> 21"

text \<open>
  The machine booted on zero-filled memory after \<open>k\<close> instructions: every opcode it fetches
  is 0x00, which the class's \<^verbatim>\<open>execute\<close> does not handle. \<open>idleFrame k\<close> is \<^verbatim>\<open>runFrame\<close> after
  \<open>k\<close> passes of its loop on that machine, and \<open>lastFrame\<close> the pass that ends the frame.
\<close>

definition idleMachine :: "nat \<Rightarrow> (apu, int \<Rightarrow> int) machine" where
  "idleMachine k =
     (bootMachine (\<lambda>_. 0))\<lparr>m_cpu := CPU_new\<lparr>cpu_PC := int k\<rparr>, m_console := replicate k 0\<rparr>"

definition idleFrame :: "nat \<Rightarrow> ((apu, int \<Rightarrow> int) machine \<times> int) frame" where
  "idleFrame k =
     \<lparr>f_cpuCyclesRun = 2 * int k, f_ppuCyclesRun = 6 * int k, f_framesCompleted = 0,
      f_emu = (Emulator_new NTSC (idleMachine k, 6 * int k))\<rparr>"

definition lastFrame :: "((apu, int \<Rightarrow> int) machine \<times> int) frame" where
  "lastFrame =
     \<lparr>f_cpuCyclesRun = 29782, f_ppuCyclesRun = 89346, f_framesCompleted = 1,
      f_emu = (Emulator_new NTSC (idleMachine 14891, 4))\<rparr>"

text \<open>
  A set of components whose PPU is the dot counter above: \<^verbatim>\<open>ppu.step()\<close> advances the dot
  count kept in the second part of the world and reports a new frame when it wraps, and
  no other method the scheduler calls touches the count. \<open>dotInv d0\<close> is what holds of the
  locals of \<^verbatim>\<open>runFrame\<close> before a frame has completed, on a PPU that was at dot \<open>d0\<close> when
  the call began.
\<close>

definition dotClock :: "('s \<times> int) components \<Rightarrow> bool" where
  "dotClock C \<longleftrightarrow>
     (\<forall>w. fst (ppuStep C w) = fst (dotStep (snd w)) \<and>
          snd (snd (ppuStep C w)) = snd (dotStep (snd w))) \<and>
     (\<forall>w. snd (snd (cpuStep C w)) = snd w) \<and>
     (\<forall>w. snd (cpuNmi C w) = snd w) \<and>
     (\<forall>level w. snd (cpuIrq C level w) = snd w) \<and>
     (\<forall>c w. snd (apuStep C c w) = snd w) \<and>
     (\<forall>w. snd (pumpAudio C w) = snd w) \<and>
     (\<forall>w. snd (videoSink C w) = snd w)"

definition dotInv :: "int \<Rightarrow> ('s \<times> int) frame \<Rightarrow> bool" where
  "dotInv d0 f \<longleftrightarrow>
     emu_region (f_emu f) = NTSC \<and>
     emu_cpuCyclesPerFrame (f_emu f) = CPU_HZ NTSC / FPS NTSC \<and>
     f_framesCompleted f = 0 \<and>
     f_ppuCyclesRun f = 3 * f_cpuCyclesRun f \<and>
     0 \<le> f_cpuCyclesRun f \<and> 0 \<le> d0 \<and>
     snd (emu_world (f_emu f)) = d0 + 3 * f_cpuCyclesRun f \<and>
     d0 + 3 * f_cpuCyclesRun f < dotsPerFrame"

section \<open>Bus lemmas\<close>

lemma and_FFFF: "(a::int) AND 0xFFFF = a mod 65536"
  using take_bit_eq_mask [of 16 a, symmetric]
  by (simp add: take_bit_eq_mod mask_eq_exp_minus_1)

lemma and_FF: "(a::int) AND 0xFF = a mod 256"
  using take_bit_eq_mask [of 8 a, symmetric]
  by (simp add: take_bit_eq_mod mask_eq_exp_minus_1)

lemma and_7: "(a::int) AND 7 = a mod 8"
  using take_bit_eq_mask [of 3 a, symmetric]
  by (simp add: take_bit_eq_mod mask_eq_exp_minus_1)

lemma readRegister_low: "0 \<le> r \<Longrightarrow> r < 8 \<Longrightarrow> readRegister r p = (0, p)"
  by (simp add: readRegister_def)

lemma writeRegister_low: "0 \<le> r \<Longrightarrow> r < 8 \<Longrightarrow> writeRegister r v p = p"
  by (simp add: writeRegister_def)

lemma Memory_read_ppu_range:
  assumes "0x2000 \<le> addr" "addr < 0x4000"
  shows "Memory_read dev addr m = (0, m)"
proof -
  have a: "addr AND 0xFFFF = addr"
    using assms by (simp add: and_FFFF)
  have r: "readRegister (addr mod 8) (mem_ppu m) = (0, mem_ppu m)"
    by (rule readRegister_low) simp_all
  show ?thesis
    using assms by (simp add: Memory_read_def a r)
qed

lemma Memory_write_ppu_range:
  assumes "0x2000 \<le> addr" "addr < 0x4000"
  shows "Memory_write dev addr v m = m"
proof -
  have a: "addr AND 0xFFFF = addr"
    using assms by (simp add: and_FFFF)
  have r: "writeRegister (addr mod 8) (v AND 0xFF) (mem_ppu m) = mem_ppu m"
    by (rule writeRegister_low) simp_all
  show ?thesis
    using assms by (simp add: Memory_write_def a r)
qed

lemma Memory_read_ram:
  assumes "0 \<le> addr" "addr < 0x2000"
  shows "Memory_read dev addr m = (mem_ram m (addr mod 0x0800), m)"
proof -
  have a: "addr AND 0xFFFF = addr"
    using assms by (simp add: and_FFFF)
  show ?thesis
    using assms by (simp add: Memory_read_def a)
qed

lemmas boot_defs =
  bootMachine_def bootMemory_def Memory_new_def Memory_reset_def PPU_new_def APU_new_def
  Input_new_def Controller_new_def CPU_new_def DMCChannel_new_def repoDevices_def

lemmas bus_defs =
  Memory_read_def Memory_write_def Memory_writes_def typedStore_def toUint8_def
  readRegister_def writeRegister_def Input_read_def Input_write_def
  Controller_read_def Controller_write_def reload_def bit01_def truthy_def

section \<open>The claims about the bus\<close>

text \<open>
  C2, as the code has it. The RAM answers every address below 0x2000 at \<open>addr mod 0x0800\<close>,
  so after any sequence of bus writes, from any state of the bus, a read of an address in
  \<open>[0, 0x1800)\<close> returns what the read 0x0800 above it returns. From 0x1800 on, the
  address 0x0800 above is a PPU register address, outside the RAM.
\<close>

theorem ram_mirror:
  assumes "0 \<le> addr" "addr < 0x1800"
  shows "fst (Memory_read dev addr (Memory_writes dev ws m)) =
         fst (Memory_read dev (addr + 0x0800) (Memory_writes dev ws m))"
  using assms by (simp add: Memory_read_ram)

theorem ram_mirror_witness:
  "(0::int) \<le> 0x10 \<and> (0x10::int) < 0x1800 \<and>
   fst (Memory_read repoDevices 0x10
          (Memory_writes repoDevices [(0x0810, 0x5A)] (bootMemory (\<lambda>_. 0)))) = 0x5A \<and>
   fst (Memory_read repoDevices (0x10 + 0x0800)
          (Memory_writes repoDevices [(0x0810, 0x5A)] (bootMemory (\<lambda>_. 0)))) = 0x5A"
  using ram_mirror [of "0x10" repoDevices "[(0x0810, 0x5A)]" "bootMemory (\<lambda>_. 0)"]
  by (simp add: bus_defs boot_defs)

text \<open>
  C2 as stated fails at \<open>addr = 0x1800\<close>: after the single write of 1 to 0x1800, the read of
  0x1800 returns 1 (RAM index 0) and the read of \<open>0x1800 + 0x0800 = 0x2000\<close> goes to the PPU
  and returns 0.
\<close>

theorem ram_mirror_range_counterexample:
  "fst (Memory_read repoDevices 0x1800
          (Memory_writes repoDevices [(0x1800, 1)] (bootMemory (\<lambda>_. 0)))) = 1 \<and>
   fst (Memory_read repoDevices (0x1800 + 0x0800)
          (Memory_writes repoDevices [(0x1800, 1)] (bootMemory (\<lambda>_. 0)))) = 0"
  by (simp add: bus_defs boot_defs)

text \<open>
  C3. For every address in \<open>[0x2000, 0x4000)\<close> and every state of the bus, the read of
  \<open>addr\<close> and the read of \<open>0x2000 + (addr & 7)\<close> return the same value and leave the
  same state, also when one follows the other.
\<close>

theorem ppu_register_mirror:
  assumes "0x2000 \<le> addr" "addr < 0x4000"
  shows "Memory_read dev addr m = Memory_read dev (0x2000 + (addr AND 7)) m \<and>
         fst (Memory_read dev (0x2000 + (addr AND 7)) (snd (Memory_read dev addr m))) =
         fst (Memory_read dev addr m)"
proof -
  have "0 \<le> addr AND 7" "addr AND 7 < 8"
    by (simp_all add: and_7)
  then have "Memory_read dev (0x2000 + (addr AND 7)) m = (0, m)"
    by (intro Memory_read_ppu_range) simp_all
  then show ?thesis
    using assms by (simp add: Memory_read_ppu_range)
qed

theorem ppu_register_mirror_witness:
  "(0x2000::int) \<le> 0x3FFA \<and> (0x3FFA::int) < 0x4000 \<and> 0x2000 + ((0x3FFA::int) AND 7) = 0x2002 \<and>
   Memory_read repoDevices 0x3FFA (bootMemory (\<lambda>_. 0)) =
   Memory_read repoDevices 0x2002 (bootMemory (\<lambda>_. 0))"
  using ppu_register_mirror [of "0x3FFA" repoDevices "bootMemory (\<lambda>_. 0)"]
  by simp

text \<open>
  C10. The bus hands the PPU \<open>addr % 8\<close>, a number from 0 to 7, and the PPU's handlers
  compare it with 0x2000 to 0x2007 and 0x4014. So for every address in \<open>[0x2000, 0x4000)\<close>
  a bus read returns 0 and a bus write of any value changes nothing: the PPU state, and
  with it the whole bus state, stays as it was.
\<close>

theorem bus_never_reaches_ppu_registers:
  assumes "0x2000 \<le> addr" "addr < 0x4000"
  shows "fst (Memory_read dev addr m) = 0 \<and>
         mem_ppu (snd (Memory_read dev addr m)) = mem_ppu m \<and>
         mem_ppu (Memory_write dev addr v m) = mem_ppu m \<and>
         snd (Memory_read dev addr m) = m \<and> Memory_write dev addr v m = m"
  using assms by (simp add: Memory_read_ppu_range Memory_write_ppu_range)

theorem bus_never_reaches_ppu_registers_witness:
  "(0x2000::int) \<le> 0x2002 \<and> (0x2002::int) < 0x4000 \<and>
   fst (Memory_read repoDevices 0x2002
          ((bootMemory (\<lambda>_. 0))\<lparr>mem_ppu := (PPU_new (\<lambda>_. None) (\<lambda>_. 0))\<lparr>ppu_status := 0x80\<rparr>\<rparr>)) = 0 \<and>
   ppu_status (mem_ppu (snd (Memory_read repoDevices 0x2002
          ((bootMemory (\<lambda>_. 0))\<lparr>mem_ppu := (PPU_new (\<lambda>_. None) (\<lambda>_. 0))\<lparr>ppu_status := 0x80\<rparr>\<rparr>)))) = 0x80 \<and>
   ppu_ctrl (mem_ppu (Memory_write repoDevices 0x2000 0x80 (bootMemory (\<lambda>_. 0)))) = 0"
  using bus_never_reaches_ppu_registers [of "0x2002" repoDevices
          "(bootMemory (\<lambda>_. 0))\<lparr>mem_ppu := (PPU_new (\<lambda>_. None) (\<lambda>_. 0))\<lparr>ppu_status := 0x80\<rparr>\<rparr>" 0]
        bus_never_reaches_ppu_registers [of "0x2000" repoDevices "bootMemory (\<lambda>_. 0)" "0x80"]
  by (simp add: boot_defs)

section \<open>The claims about the PPU registers\<close>

lemma and_7F_bit7: "\<not> bit ((s::int) AND 0x7F) 7"
  using bit_take_bit_iff [of 7 s 7] take_bit_eq_mask [of 7 s]
  by (simp add: mask_eq_exp_minus_1)

lemma and_7F_low: "n < 7 \<Longrightarrow> bit ((s::int) AND 0x7F) n = bit s n"
  using bit_take_bit_iff [of 7 s n] take_bit_eq_mask [of 7 s]
  by (simp add: mask_eq_exp_minus_1)

lemma and_7F_byte:
  assumes "0 \<le> s" "s < 256" "n \<noteq> 7"
  shows "bit ((s::int) AND 0x7F) n = bit s n"
proof (cases "n < 7")
  case True
  then show ?thesis by (rule and_7F_low)
next
  case False
  with assms have n: "8 \<le> n" by simp
  have "take_bit 8 s = s"
    using assms by (simp add: take_bit_eq_mod)
  then have "\<not> bit s n"
    using n bit_take_bit_iff [of 8 s n] by simp
  moreover have "\<not> bit (s AND 0x7F) n"
    using bit_take_bit_iff [of 7 s n] take_bit_eq_mask [of 7 s] n
    by (simp add: mask_eq_exp_minus_1)
  ultimately show ?thesis by simp
qed

lemma readRegister_status:
  "fst (readRegister 0x2002 p) = ppu_status p \<and>
   ppu_writeToggle (snd (readRegister 0x2002 p)) = 0 \<and>
   \<not> bit (ppu_status (snd (readRegister 0x2002 p))) 7 \<and>
   (\<forall>n. n < 7 \<longrightarrow> bit (ppu_status (snd (readRegister 0x2002 p))) n = bit (ppu_status p) n) \<and>
   (0 \<le> ppu_status p \<and> ppu_status p < 256 \<longrightarrow>
      (\<forall>n. n \<noteq> 7 \<longrightarrow> bit (ppu_status (snd (readRegister 0x2002 p))) n = bit (ppu_status p) n)) \<and>
   snd (readRegister 0x2002 p) =
     p\<lparr>ppu_status := ppu_status (snd (readRegister 0x2002 p)), ppu_writeToggle := 0\<rparr>"
  by (simp add: readRegister_def and_7F_bit7 and_7F_low and_7F_byte)

lemma CPU_read_ppu_range:
  assumes "0x2000 \<le> addr" "addr < 0x4000"
  shows "CPU_read dev addr s = (0, s)"
  using assms by (simp add: CPU_read_def Memory_read_ppu_range)

text \<open>
  C7: a CPU read of register 0x2002 returns the status byte, clears status bit 7 and the
  write toggle, and leaves the other status bits. The code misses this. The handler's
  case 0x2002 does it (\<open>readRegister_status\<close>), but a CPU read reaches the handler through
  the bus, which passes \<open>0x2002 % 8 = 2\<close>, and no case matches 2. On a machine whose PPU has
  status 0x80 (VBlank set) and write toggle 1, the CPU read of 0x2002 returns 0 and
  leaves the machine as it was, VBlank and toggle still set, where the handler called
  with 0x2002 returns 0x80 and clears both.
\<close>

theorem cpu_read_status_misses_handler:
  "CPU_read repoDevices 0x2002
     ((bootMachine (\<lambda>_. 0))\<lparr>m_memory := (bootMemory (\<lambda>_. 0))\<lparr>mem_ppu :=
        (PPU_new (\<lambda>_. None) (\<lambda>_. 0))\<lparr>ppu_status := 0x80, ppu_writeToggle := 1\<rparr>\<rparr>\<rparr>) =
     (0, (bootMachine (\<lambda>_. 0))\<lparr>m_memory := (bootMemory (\<lambda>_. 0))\<lparr>mem_ppu :=
        (PPU_new (\<lambda>_. None) (\<lambda>_. 0))\<lparr>ppu_status := 0x80, ppu_writeToggle := 1\<rparr>\<rparr>\<rparr>) \<and>
   fst (readRegister (0x2002 mod 8)
     ((PPU_new (\<lambda>_. None) (\<lambda>_. 0))\<lparr>ppu_status := 0x80, ppu_writeToggle := 1\<rparr>)) = 0 \<and>
   readRegister 0x2002
     ((PPU_new (\<lambda>_. None) (\<lambda>_. 0))\<lparr>ppu_status := 0x80, ppu_writeToggle := 1\<rparr>) =
     (0x80, (PPU_new (\<lambda>_. None) (\<lambda>_. 0))\<lparr>ppu_status := 0, ppu_writeToggle := 0\<rparr>)"
  by (simp add: CPU_read_ppu_range readRegister_def PPU_new_def)

section \<open>Controller lemmas\<close>

lemma Memory_write_4016:
  "Memory_write dev 0x4016 v m = m\<lparr>mem_controllers := Input_write 0x4016 (v AND 0xFF) (mem_controllers m)\<rparr>"
  by (simp add: Memory_write_def)

lemma Memory_read_4016:
  "Memory_read dev 0x4016 m =
     (fst (Controller_read (player1 (mem_controllers m))),
      m\<lparr>mem_controllers := (mem_controllers m)\<lparr>player1 := snd (Controller_read (player1 (mem_controllers m)))\<rparr>\<rparr>)"
  by (simp add: Memory_read_def Input_read_def split_beta)

lemma strobe_sequence:
  "player1 (mem_controllers (Memory_writes dev [(0x4016, 1), (0x4016, 0)] m)) =
     (reload ((player1 (mem_controllers m))\<lparr>ctl_strobe := 1\<rparr>))\<lparr>ctl_strobe := 0\<rparr>"
  by (simp add: Memory_writes_def Memory_write_4016 Input_write_def Controller_write_def truthy_def reload_def Let_def)

lemma shift_bit: "(drop_bit i (r::int) AND 1) = of_bool (bit r i)"
  by (simp add: and_one_eq bit_iff_odd_drop_bit mod_2_eq_odd)

lemma reads_shift:
  "ctl_strobe (player1 (mem_controllers m)) = 0 \<Longrightarrow>
   fst (Memory_reads dev 0x4016 k m) =
     map (\<lambda>i. of_bool (bit (ctl_shiftRegister (player1 (mem_controllers m))) i) OR 0x40) [0..<k]"
proof (induction k arbitrary: m)
  case 0
  then show ?case by simp
next
  case (Suc k)
  let ?c = "player1 (mem_controllers m)"
  let ?m1 = "snd (Memory_read dev 0x4016 m)"
  have rd: "Controller_read ?c = ((ctl_shiftRegister ?c AND 1) OR 0x40, ?c\<lparr>ctl_shiftRegister := drop_bit 1 (ctl_shiftRegister ?c)\<rparr>)"
    using Suc.prems by (simp add: Controller_read_def truthy_def)
  have p1: "player1 (mem_controllers ?m1) = ?c\<lparr>ctl_shiftRegister := drop_bit 1 (ctl_shiftRegister ?c)\<rparr>"
    by (simp add: Memory_read_4016 rd)
  have s1: "ctl_strobe (player1 (mem_controllers ?m1)) = 0"
    using Suc.prems by (simp add: p1)
  have v: "fst (Memory_read dev 0x4016 m) = of_bool (bit (ctl_shiftRegister ?c) 0) OR 0x40"
    using shift_bit [of 0 "ctl_shiftRegister ?c"] by (simp add: Memory_read_4016 rd)
  have ih: "fst (Memory_reads dev 0x4016 k ?m1) =
     map (\<lambda>i. of_bool (bit (ctl_shiftRegister ?c) (Suc i)) OR 0x40) [0..<k]"
    using Suc.IH [OF s1] by (simp add: p1 bit_drop_bit_eq)
  have "fst (Memory_reads dev 0x4016 (Suc k) m) =
     fst (Memory_read dev 0x4016 m) # fst (Memory_reads dev 0x4016 k ?m1)"
    by (simp add: split_beta)
  also have "\<dots> = map (\<lambda>i. of_bool (bit (ctl_shiftRegister ?c) i) OR 0x40) (0 # map Suc [0..<k])"
    by (simp add: v ih comp_def)
  finally show ?case
    by (simp only: upt_conv_Cons [of 0 "Suc k"] map_Suc_upt)
qed

lemma bit_push_bit01: "bit (push_bit k (bit01 x)) n \<longleftrightarrow> n = k \<and> x \<noteq> 0"
  by (auto simp add: bit_push_bit_iff bit01_def truthy_def bit_1_iff)

lemma bit_bit01: "bit (bit01 x) n \<longleftrightarrow> n = 0 \<and> x \<noteq> 0"
  using bit_push_bit01 [of 0 x n] by simp

lemma bit_reload:
  "bit (ctl_shiftRegister (reload c)) i =
     ((i = 0 \<and> btn_A (ctl_buttons c) \<noteq> 0) \<or> (i = 1 \<and> btn_B (ctl_buttons c) \<noteq> 0) \<or>
      (i = 2 \<and> btn_Select (ctl_buttons c) \<noteq> 0) \<or> (i = 3 \<and> btn_Start (ctl_buttons c) \<noteq> 0) \<or>
      (i = 4 \<and> btn_Up (ctl_buttons c) \<noteq> 0) \<or> (i = 5 \<and> btn_Down (ctl_buttons c) \<noteq> 0) \<or>
      (i = 6 \<and> btn_Left (ctl_buttons c) \<noteq> 0) \<or> (i = 7 \<and> btn_Right (ctl_buttons c) \<noteq> 0))"
proof -
  have "ctl_shiftRegister (reload c) =
      bit01 (btn_A (ctl_buttons c)) OR
           push_bit 1 (bit01 (btn_B (ctl_buttons c))) OR
           push_bit 2 (bit01 (btn_Select (ctl_buttons c))) OR
           push_bit 3 (bit01 (btn_Start (ctl_buttons c))) OR
           push_bit 4 (bit01 (btn_Up (ctl_buttons c))) OR
           push_bit 5 (bit01 (btn_Down (ctl_buttons c))) OR
           push_bit 6 (bit01 (btn_Left (ctl_buttons c))) OR
           push_bit 7 (bit01 (btn_Right (ctl_buttons c)))"
    by (simp add: reload_def Let_def)
  then show ?thesis
    by (simp only: bit_or_iff bit_push_bit01 bit_bit01)
qed

lemma latch_bits:
  "of_bool (bit (ctl_shiftRegister (reload c)) 0) = bit01 (btn_A (ctl_buttons c))"
  "of_bool (bit (ctl_shiftRegister (reload c)) (Suc 0)) = bit01 (btn_B (ctl_buttons c))"
  "of_bool (bit (ctl_shiftRegister (reload c)) 2) = bit01 (btn_Select (ctl_buttons c))"
  "of_bool (bit (ctl_shiftRegister (reload c)) 3) = bit01 (btn_Start (ctl_buttons c))"
  "of_bool (bit (ctl_shiftRegister (reload c)) 4) = bit01 (btn_Up (ctl_buttons c))"
  "of_bool (bit (ctl_shiftRegister (reload c)) 5) = bit01 (btn_Down (ctl_buttons c))"
  "of_bool (bit (ctl_shiftRegister (reload c)) 6) = bit01 (btn_Left (ctl_buttons c))"
  "of_bool (bit (ctl_shiftRegister (reload c)) 7) = bit01 (btn_Right (ctl_buttons c))"
  "of_bool (bit (ctl_shiftRegister (reload c)) (8 + i)) = (0::int)"
  by (simp_all add: bit_reload bit01_def truthy_def)

lemma upt_8_plus: "[0..<8 + n] = [0, Suc 0, 2, 3, 4, 5, 6, 7] @ map (\<lambda>i. 8 + i) [0..<n]"
proof -
  have a: "[0..<8 + n] = [0..<8] @ [8..<8 + n]"
    by (simp only: upt_add_eq_append [of 0 8 n, simplified])
  have b: "[0..<8] = [0, Suc 0, 2, 3, 4, 5, 6, 7::nat]"
    by code_simp
  have c: "[8..<8 + n] = map (\<lambda>i. 8 + i) [0..<n]"
    using map_add_upt [of 8 n] by (simp add: add.commute)
  show ?thesis
    by (simp only: a b c)
qed

lemma reads_after_strobe:
  "fst (Memory_reads dev 0x4016 (8 + n) (Memory_writes dev [(0x4016, 1), (0x4016, 0)] m)) =
     map (\<lambda>x. bit01 x OR 0x40)
       [btn_A (ctl_buttons (player1 (mem_controllers m))),
        btn_B (ctl_buttons (player1 (mem_controllers m))),
        btn_Select (ctl_buttons (player1 (mem_controllers m))),
        btn_Start (ctl_buttons (player1 (mem_controllers m))),
        btn_Up (ctl_buttons (player1 (mem_controllers m))),
        btn_Down (ctl_buttons (player1 (mem_controllers m))),
        btn_Left (ctl_buttons (player1 (mem_controllers m))),
        btn_Right (ctl_buttons (player1 (mem_controllers m)))] @ replicate n 0x40"
proof -
  let ?m = "Memory_writes dev [(0x4016, 1), (0x4016, 0)] m"
  let ?c = "(player1 (mem_controllers m))\<lparr>ctl_strobe := 1\<rparr>"
  have s0: "ctl_strobe (player1 (mem_controllers ?m)) = 0"
    by (simp add: strobe_sequence)
  have r: "ctl_shiftRegister (player1 (mem_controllers ?m)) = ctl_shiftRegister (reload ?c)"
    by (simp add: strobe_sequence)
  have b: "ctl_buttons ?c = ctl_buttons (player1 (mem_controllers m))"
    by simp
  have tl: "map (\<lambda>i. of_bool (bit (ctl_shiftRegister (reload ?c)) i) OR (0x40::int)) (map (\<lambda>i. 8 + i) [0..<n])
         = replicate n 0x40"
    by (simp only: map_map comp_def latch_bits) (simp add: map_replicate_const)
  show ?thesis
    unfolding reads_shift [OF s0] r upt_8_plus map_append tl
    by (simp only: list.map latch_bits b)
qed

section \<open>CPU lemmas\<close>

lemma Memory_read_ram_unchanged: "mem_ram (snd (Memory_read dev a m)) = mem_ram m"
  by (simp add: Memory_read_def Let_def split_beta)

lemma Memory_read_cartridge:
  assumes "0x4020 \<le> addr" "addr \<le> 0xFFFF"
  shows "Memory_read dev addr m =
     (fst (cartridge_cpuRead dev addr (mem_cartridge m)),
      m\<lparr>mem_cartridge := snd (cartridge_cpuRead dev addr (mem_cartridge m))\<rparr>)"
proof -
  have a: "addr AND 0xFFFF = addr"
    using assms by (simp add: and_FFFF)
  show ?thesis
    using assms by (simp add: Memory_read_def a split_beta)
qed

lemma reset_regs:
  "m_cpu (CPU_reset dev s) =
     (m_cpu s)\<lparr>cpu_A := 0, cpu_X := 0, cpu_Y := 0, cpu_SP := 0xFD, cpu_status := 0x24,
       cpu_PC := push_bit 8 (fst (Memory_read dev (0xFFFC + 1) (snd (Memory_read dev 0xFFFC (m_memory s)))))
                 OR fst (Memory_read dev 0xFFFC (m_memory s))\<rparr>"
  by (simp add: CPU_reset_def readWord_def CPU_read_def split_beta Let_def)

lemma step_unhandled:
  assumes "fst (Memory_read dev (cpu_PC (m_cpu s)) (m_memory s)) = opcode"
    and "opcode \<notin> {0xA9, 0xAA, 0xE8}"
  shows "step dev s =
     (2, s\<lparr>m_cpu := (m_cpu s)\<lparr>cpu_PC := cpu_PC (m_cpu s) + 1\<rparr>,
           m_memory := snd (Memory_read dev (cpu_PC (m_cpu s)) (m_memory s)),
           m_console := m_console s @ [opcode]\<rparr>)"
  using assms by (simp add: step_def execute_def CPU_read_def split_beta Let_def warn_def)

lemma step2_unhandled:
  assumes "fst (Memory_read dev (cpu_PC (m_cpu s)) (m_memory s)) = opcode"
    and "opcode \<notin> {0xA9, 0x85, 0x8D, 0x4C, 0x00, 0x69, 0xE9, 0x48, 0x68}"
  shows "step2 dev s =
     (2, s\<lparr>m_cpu := (m_cpu s)\<lparr>cpu_PC := cpu_PC (m_cpu s) + 1\<rparr>,
           m_memory := snd (Memory_read dev (cpu_PC (m_cpu s)) (m_memory s)),
           m_console := m_console s @ [opcode]\<rparr>)"
  using assms by (simp add: step2_def execute2_def CPU_read_def split_beta Let_def warn_def)

section \<open>DMA lemmas\<close>

lemma store_fold:
  assumes f: "\<And>i oam j. f i oam j = (if j = int i \<and> i < 256 then toUint8 (g i) else oam j)"
  shows "fold f [0 ..< n] oam0 j =
     (if 0 \<le> j \<and> j < int n \<and> j < 256 then toUint8 (g (nat j)) else oam0 j)"
proof (induction n)
  case 0
  then show ?case by simp
next
  case (Suc n)
  have "fold f [0 ..< Suc n] oam0 j = f n (fold f [0 ..< n] oam0) j"
    by simp
  also have "\<dots> = (if j = int n \<and> n < 256 then toUint8 (g n) else fold f [0 ..< n] oam0 j)"
    by (rule f)
  also have "\<dots> = (if 0 \<le> j \<and> j < int (Suc n) \<and> j < 256 then toUint8 (g (nat j)) else oam0 j)"
    unfolding Suc.IH by (cases "j = int n") simp_all
  finally show ?case .
qed

lemma dma_fold:
  "fold (\<lambda>i oam. typedStore 256 oam (int i) (g i)) [0 ..< n] oam0 j =
     (if 0 \<le> j \<and> j < int n \<and> j < 256 then toUint8 (g (nat j)) else oam0 j)"
  by (rule store_fold) (simp add: typedStore_def)

lemma performDMA_oam:
  "ppu_oam (performDMA page p) j =
     (if 0 \<le> j \<and> j < 256 then toUint8 (fromUndefined (ppu_cpuMemory p (shl32 page 8 + j)))
      else ppu_oam p j)"
  using dma_fold [of "\<lambda>i. fromUndefined (ppu_cpuMemory p (shl32 page 8 + int i))" 256 "ppu_oam p" j]
  by (simp add: performDMA_def Let_def)

lemma shl32_values:
  "shl32 0x02 8 = 0x0200" "shl32 0x1000000 8 = 0" "shl32 0x800000 8 = - 0x80000000"
  by (simp_all add: shl32_def signed_take_bit_eq_take_bit_shift take_bit_eq_mod)

lemma performDMA_wraps:
  "ppu_oam (performDMA 0x1000000 (PPU_new (\<lambda>a. if a = 0 then Some 7 else None) (\<lambda>_. 0))) 0 = 7"
  by (simp add: performDMA_oam shl32_values PPU_new_def toUint8_def fromUndefined_def)

lemma performDMA_rest: "performDMA page p = p\<lparr>ppu_oam := ppu_oam (performDMA page p)\<rparr>"
  by (simp add: performDMA_def Let_def)

lemma writeRegister_4014: "writeRegister 0x4014 v p = performDMA v p"
  by (simp add: writeRegister_def)

lemma sta_absolute_cycles: "fst (execute2 dev 0x8D s) = 4"
  by (simp add: execute2_def split_beta)

lemma bus_write_4014:
  "Memory_write dev 0x4014 v m = m\<lparr>mem_apu := apu_writeRegister dev 0x4014 (v AND 0xFF) (mem_apu m)\<rparr>"
  by (simp add: Memory_write_def)

lemma APU_write_4014: "APU_write 0x4014 v a = a"
  by (simp add: APU_write_def)

section \<open>DMC lemmas\<close>

lemma and_7F: "(a::int) AND 0x7F = a mod 128"
  using take_bit_eq_mask [of 7 a, symmetric]
  by (simp add: take_bit_eq_mod mask_eq_exp_minus_1)

lemma mod_128_le: "(v::int) mod 128 \<le> 127"
proof -
  have "v mod 128 < 128" by simp
  then show ?thesis by linarith
qed

lemma DMC_write_level: "levelOk d \<Longrightarrow> levelOk (DMC_write addr v d)"
  by (simp add: DMC_write_def levelOk_def and_7F mod_128_le)

lemma DMC_setEnabled_level: "dmc_outputLevel (DMC_setEnabled on d) = dmc_outputLevel d"
  by (simp add: DMC_setEnabled_def restartSample_def Let_def)

lemma fetchSample_level: "dmc_outputLevel (fst (fetchSample rd (d, m))) = dmc_outputLevel d"
  by (simp add: fetchSample_def restartSample_def Let_def split_beta)

lemma shiftBit_level:
  "dmc_outputLevel (shiftBit d) =
     (if dmc_bitsRemaining d > 0 then
        (if dmc_shiftRegister d AND 1 \<noteq> 0
         then (if dmc_outputLevel d + 2 \<le> 127 then dmc_outputLevel d + 2 else dmc_outputLevel d)
         else (if 0 \<le> dmc_outputLevel d - 2 then dmc_outputLevel d - 2 else dmc_outputLevel d))
      else dmc_outputLevel d)"
  by (simp add: shiftBit_def truthy_def Let_def)

lemma shiftBit_ok: "levelOk d \<Longrightarrow> levelOk (shiftBit d)"
  by (simp add: levelOk_def shiftBit_level)

lemma shiftBit_delta:
  "dmc_outputLevel (shiftBit d) \<in> {dmc_outputLevel d, dmc_outputLevel d + 2, dmc_outputLevel d - 2}"
  by (simp add: shiftBit_level)

lemma refill_level: "dmc_outputLevel (fst (refill rd (d, m))) = dmc_outputLevel d"
  by (simp add: refill_def Let_def split_beta fetchSample_level)

lemma DMC_step_level:
  "dmc_outputLevel (fst (DMC_step rd (d, m))) =
     (if dmc_enabled d then dmc_outputLevel (shiftBit (fst (refill rd (d, m)))) else dmc_outputLevel d)"
  by (simp add: DMC_step_def split_beta)

lemma DMC_step_ok: "levelOk d \<Longrightarrow> levelOk (fst (DMC_step rd (d, m)))"
  using shiftBit_ok [of "fst (refill rd (d, m))"] refill_level [of rd d m]
  by (simp add: DMC_step_level levelOk_def)

lemma DMC_step_delta:
  "dmc_outputLevel (fst (DMC_step rd (d, m))) \<in>
     {dmc_outputLevel d, dmc_outputLevel d + 2, dmc_outputLevel d - 2}"
  using shiftBit_delta [of "fst (refill rd (d, m))"] refill_level [of rd d m]
  by (simp add: DMC_step_level)

lemma dmc_do_ok: "levelOk (fst dm) \<Longrightarrow> levelOk (fst (dmc_do rd c dm))"
proof (cases c)
  case (DmcWrite a v)
  assume "levelOk (fst dm)"
  then show ?thesis using DmcWrite by (simp add: DMC_write_level)
next
  case (DmcSetEnabled on)
  assume "levelOk (fst dm)"
  then show ?thesis using DmcSetEnabled by (simp add: levelOk_def DMC_setEnabled_level)
next
  case DmcStep
  assume "levelOk (fst dm)"
  then show ?thesis using DmcStep DMC_step_ok [of "fst dm" rd "snd dm"] by simp
qed

lemma dmc_run_ok: "levelOk (fst dm) \<Longrightarrow> levelOk (fst (dmc_run rd calls dm))"
  unfolding dmc_run_def
  by (induction calls arbitrary: dm) (simp_all add: dmc_do_ok)

lemma DMC_step_shifting:
  assumes "dmc_enabled d" "dmc_bitsRemaining d > 0"
  shows "DMC_step rd (d, m) = (shiftBit d, m)"
  using assms by (simp add: DMC_step_def refill_def)

lemma refill_fetching:
  assumes "dmc_bitsRemaining d = 0" "dmc_bufferEmpty d" "dmc_currentLength d > 0"
  shows "dmc_shiftRegister (fst (refill rd (d, m))) = fst (rd (dmc_currentAddress d) m) \<and>
         dmc_bitsRemaining (fst (refill rd (d, m))) = 8"
  using assms
  by (simp add: refill_def fetchSample_def restartSample_def Let_def split_beta)

lemma DMC_step_fetching:
  assumes "dmc_enabled d" "dmc_bitsRemaining d = 0" "dmc_bufferEmpty d" "dmc_currentLength d > 0"
  shows "dmc_outputLevel (fst (DMC_step rd (d, m))) =
     (if fst (rd (dmc_currentAddress d) m) AND 1 \<noteq> 0
      then (if dmc_outputLevel d + 2 \<le> 127 then dmc_outputLevel d + 2 else dmc_outputLevel d)
      else (if 0 \<le> dmc_outputLevel d - 2 then dmc_outputLevel d - 2 else dmc_outputLevel d))"
  using assms refill_fetching [OF assms(2-4), of rd m] refill_level [of rd d m]
  by (simp add: DMC_step_level shiftBit_level)

lemma fetch_last:
  assumes "dmc_currentLength d = 1"
  shows "dmc_sampleBuffer (fst (fetchSample rd (d, m))) = fst (rd (dmc_currentAddress d) m) \<and>
     (if dmc_loop d
      then dmc_currentLength (fst (fetchSample rd (d, m))) = dmc_sampleLength d \<and>
           dmc_currentAddress (fst (fetchSample rd (d, m))) = dmc_sampleAddress d \<and>
           dmc_dmcIRQ (fst (fetchSample rd (d, m))) = dmc_dmcIRQ d
      else dmc_currentLength (fst (fetchSample rd (d, m))) = 0 \<and>
           dmc_dmcIRQ (fst (fetchSample rd (d, m))) = (dmc_irqEnabled d \<or> dmc_dmcIRQ d))"
  using assms
  by (simp add: fetchSample_def restartSample_def Let_def split_beta)

section \<open>Scheduler lemmas\<close>

lemma target_NTSC: "of_int c < CPU_HZ NTSC / FPS NTSC \<longleftrightarrow> c \<le> 29829"
proof -
  have "of_int c < (1789773 / 60 :: rat) \<longleftrightarrow> of_int c * 60 < (1789773 :: rat)"
    by (rule pos_less_divide_eq) simp
  also have "\<dots> \<longleftrightarrow> (of_int (c * 60) :: rat) < of_int 1789773"
    by simp
  also have "\<dots> \<longleftrightarrow> c * 60 < 1789773"
    by (simp only: of_int_less_iff)
  also have "\<dots> \<longleftrightarrow> c \<le> 29829"
    by arith
  finally show ?thesis
    by (simp only: CPU_HZ_def FPS_def region.case)
qed

lemma ppuTick_fields:
  "f_cpuCyclesRun (ppuTick C f) = f_cpuCyclesRun f"
  "f_ppuCyclesRun (ppuTick C f) = f_ppuCyclesRun f + 1"
  "f_framesCompleted f \<le> f_framesCompleted (ppuTick C f)"
  "f_framesCompleted (ppuTick C f) \<le> f_framesCompleted f + 1"
  "emu_region (f_emu (ppuTick C f)) = emu_region (f_emu f)"
  "emu_cpuCyclesPerFrame (f_emu (ppuTick C f)) = emu_cpuCyclesPerFrame (f_emu f)"
  "emu_frameCounter (f_emu (ppuTick C f)) = emu_frameCounter (f_emu f)"
  by (simp_all add: ppuTick_def serviceNMI_def Let_def split_beta)

lemma ppuTicks_fields:
  "f_cpuCyclesRun (ppuTicks C n f) = f_cpuCyclesRun f \<and>
   f_ppuCyclesRun (ppuTicks C n f) = f_ppuCyclesRun f + int n \<and>
   f_framesCompleted f \<le> f_framesCompleted (ppuTicks C n f) \<and>
   f_framesCompleted (ppuTicks C n f) \<le> f_framesCompleted f + int n \<and>
   emu_region (f_emu (ppuTicks C n f)) = emu_region (f_emu f) \<and>
   emu_cpuCyclesPerFrame (f_emu (ppuTicks C n f)) = emu_cpuCyclesPerFrame (f_emu f) \<and>
   emu_frameCounter (f_emu (ppuTicks C n f)) = emu_frameCounter (f_emu f)"
proof (induction n arbitrary: f)
  case 0
  then show ?case by simp
next
  case (Suc n)
  show ?case
    using Suc.IH [of "ppuTick C f"] ppuTick_fields [where C = C and f = f]
    by simp
qed

lemma frameBody_fields:
  assumes "emu_region (f_emu f) = NTSC"
  shows
  "f_cpuCyclesRun (frameBody C f) = f_cpuCyclesRun f + fst (cpuStep C (emu_world (f_emu f))) \<and>
   f_ppuCyclesRun (frameBody C f) = f_ppuCyclesRun f + int (nat (fst (cpuStep C (emu_world (f_emu f))) * 3)) \<and>
   f_framesCompleted f \<le> f_framesCompleted (frameBody C f) \<and>
   f_framesCompleted (frameBody C f) \<le> f_framesCompleted f + int (nat (fst (cpuStep C (emu_world (f_emu f))) * 3)) \<and>
   emu_region (f_emu (frameBody C f)) = emu_region (f_emu f) \<and>
   emu_cpuCyclesPerFrame (f_emu (frameBody C f)) = emu_cpuCyclesPerFrame (f_emu f) \<and>
   emu_frameCounter (f_emu (frameBody C f)) = emu_frameCounter (f_emu f)"
proof -
  let ?c = "fst (cpuStep C (emu_world (f_emu f)))"
  let ?w1 = "snd (cpuStep C (emu_world (f_emu f)))"
  let ?f1 = "f\<lparr>f_cpuCyclesRun := f_cpuCyclesRun f + ?c, f_emu := (f_emu f)\<lparr>emu_world := ?w1\<rparr>\<rparr>"
  show ?thesis
    using ppuTicks_fields [of C "nat (?c * 3)" ?f1] assms
    by (simp add: frameBody_def serviceIRQ_def Let_def split_beta PPU_PER_CPU_def)
qed

lemma frameBody_inv:
  assumes cyc: "\<forall>w. 1 \<le> fst (cpuStep C w) \<and> fst (cpuStep C w) \<le> 7"
    and r: "emu_region (f_emu f) = NTSC"
    and t: "emu_cpuCyclesPerFrame (f_emu f) = CPU_HZ NTSC / FPS NTSC"
    and p: "f_ppuCyclesRun f = 3 * f_cpuCyclesRun f"
    and c: "0 \<le> f_cpuCyclesRun f" "f_cpuCyclesRun f \<le> 29829"
    and z: "f_framesCompleted f = 0"
  shows "frameInv (frameBody C f) \<and> f_cpuCyclesRun f < f_cpuCyclesRun (frameBody C f) \<and>
     emu_frameCounter (f_emu (frameBody C f)) = emu_frameCounter (f_emu f)"
proof -
  let ?c = "fst (cpuStep C (emu_world (f_emu f)))"
  have b: "1 \<le> ?c" "?c \<le> 7"
    using cyc by simp_all
  then have n: "int (nat (?c * 3)) = 3 * ?c"
    by simp
  show ?thesis
    using frameBody_fields [OF r, of C] b r t p c z
    unfolding frameInv_def n
    by simp
qed

lemma frameLoop_inv:
  assumes cyc: "\<forall>w. 1 \<le> fst (cpuStep C w) \<and> fst (cpuStep C w) \<le> 7"
  shows "frameInv f \<Longrightarrow>
     \<exists>f'. frameLoop C f = Some f' \<and> frameInv f' \<and>
          (f_framesCompleted f' \<noteq> 0 \<or> 29830 \<le> f_cpuCyclesRun f') \<and>
          emu_frameCounter (f_emu f') = emu_frameCounter (f_emu f)"
proof (induction "nat (29830 - f_cpuCyclesRun f)" arbitrary: f rule: less_induct)
  case less
  show ?case
  proof (cases "f_framesCompleted f = 0 \<and> f_cpuCyclesRun f \<le> 29829")
    case False
    then have "frameLoop C f = Some f"
      using less.prems frameLoop.simps [of C f]
      by (auto simp add: frameInv_def target_NTSC)
    then show ?thesis
      using less.prems False by auto
  next
    case True
    have u: "frameLoop C f = frameLoop C (frameBody C f)"
      using less.prems True frameLoop.simps [of C f]
      by (auto simp add: frameInv_def target_NTSC)
    have b: "frameInv (frameBody C f) \<and> f_cpuCyclesRun f < f_cpuCyclesRun (frameBody C f) \<and>
        emu_frameCounter (f_emu (frameBody C f)) = emu_frameCounter (f_emu f)"
      using less.prems True
      by (intro frameBody_inv [OF cyc]) (simp_all add: frameInv_def)
    then have "nat (29830 - f_cpuCyclesRun (frameBody C f)) < nat (29830 - f_cpuCyclesRun f)"
      using True by simp
    from less.hyps [OF this] b u show ?thesis
      by simp
  qed
qed

lemma runFrame_NTSC:
  assumes cyc: "\<forall>w. 1 \<le> fst (cpuStep C w) \<and> fst (cpuStep C w) \<le> 7"
    and r: "emu_region e = NTSC"
    and t: "emu_cpuCyclesPerFrame e = CPU_HZ NTSC / FPS NTSC"
  shows "\<exists>st e'. runFrame C e = Some (st, e') \<and>
     1 \<le> cpuCyclesRun st \<and> cpuCyclesRun st \<le> 29836 \<and>
     ppuCyclesRun st = 3 * cpuCyclesRun st \<and>
     0 \<le> framesCompleted st \<and> framesCompleted st \<le> 21 \<and>
     (framesCompleted st \<noteq> 0 \<or> 29830 \<le> cpuCyclesRun st) \<and>
     frameIndex st = emu_frameCounter e + framesCompleted st"
proof -
  let ?f0 = "\<lparr>f_cpuCyclesRun = 0, f_ppuCyclesRun = 0, f_framesCompleted = 0, f_emu = e\<rparr>"
  have u: "frameLoop C ?f0 = frameLoop C (frameBody C ?f0)"
    using frameLoop.simps [of C ?f0] target_NTSC [of 0]
    by (simp add: t)
  have b: "frameInv (frameBody C ?f0) \<and> f_cpuCyclesRun ?f0 < f_cpuCyclesRun (frameBody C ?f0) \<and>
      emu_frameCounter (f_emu (frameBody C ?f0)) = emu_frameCounter (f_emu ?f0)"
    by (intro frameBody_inv [OF cyc]) (simp_all add: r t)
  obtain f' where f': "frameLoop C ?f0 = Some f'" "frameInv f'"
      "f_framesCompleted f' \<noteq> 0 \<or> 29830 \<le> f_cpuCyclesRun f'"
      "emu_frameCounter (f_emu f') = emu_frameCounter e"
    using frameLoop_inv [OF cyc, of "frameBody C ?f0"] b u by auto
  show ?thesis
    using f' by (simp add: runFrame_def Let_def frameInv_def)
qed

lemma boot_read_zero:
  assumes "0 \<le> a" "a < 0x4000"
  shows "Memory_read repoDevices a (bootMemory (\<lambda>_. 0)) = (0, bootMemory (\<lambda>_. 0))"
proof (cases "a < 0x2000")
  case True
  then show ?thesis
    using assms Memory_read_ram [of a repoDevices "bootMemory (\<lambda>_. 0)"]
    by (simp add: bootMemory_def Memory_new_def Memory_reset_def)
next
  case False
  then show ?thesis
    using assms by (simp add: Memory_read_ppu_range)
qed

lemma idle_step:
  assumes "k < 0x4000"
  shows "step repoDevices (idleMachine k) = (2, idleMachine (Suc k))"
proof -
  have rd: "Memory_read repoDevices (int k) (bootMemory (\<lambda>_. 0)) = (0, bootMemory (\<lambda>_. 0))"
    using assms by (intro boot_read_zero) simp_all
  have "step repoDevices (idleMachine k) =
     (2, (idleMachine k)\<lparr>m_cpu := (m_cpu (idleMachine k))\<lparr>cpu_PC := cpu_PC (m_cpu (idleMachine k)) + 1\<rparr>,
           m_memory := snd (Memory_read repoDevices (cpu_PC (m_cpu (idleMachine k))) (m_memory (idleMachine k))),
           m_console := m_console (idleMachine k) @ [0]\<rparr>)"
    by (rule step_unhandled) (simp_all add: idleMachine_def bootMachine_def rd)
  also have "\<dots> = (2, idleMachine (Suc k))"
    by (simp add: idleMachine_def bootMachine_def rd replicate_append_same add.commute)
  finally show ?thesis .
qed


lemma idle_tick:
  assumes "d + 1 < dotsPerFrame"
  shows "ppuTick repoComponents
           \<lparr>f_cpuCyclesRun = c, f_ppuCyclesRun = p, f_framesCompleted = n,
            f_emu = \<lparr>emu_region = NTSC, emu_cpuCyclesPerFrame = t, emu_nmiPrev = False,
                     emu_frameCounter = i, emu_world = (s, d)\<rparr>\<rparr> =
           \<lparr>f_cpuCyclesRun = c, f_ppuCyclesRun = p + 1, f_framesCompleted = n,
            f_emu = \<lparr>emu_region = NTSC, emu_cpuCyclesPerFrame = t, emu_nmiPrev = False,
                     emu_frameCounter = i, emu_world = (s, d + 1)\<rparr>\<rparr>"
  using assms by (simp add: ppuTick_def repoComponents_def dotStep_def serviceNMI_def Let_def)

lemma wrap_tick:
  assumes "d + 1 = dotsPerFrame"
  shows "ppuTick repoComponents
           \<lparr>f_cpuCyclesRun = c, f_ppuCyclesRun = p, f_framesCompleted = n,
            f_emu = \<lparr>emu_region = NTSC, emu_cpuCyclesPerFrame = t, emu_nmiPrev = False,
                     emu_frameCounter = i, emu_world = (s, d)\<rparr>\<rparr> =
           \<lparr>f_cpuCyclesRun = c, f_ppuCyclesRun = p + 1, f_framesCompleted = n + 1,
            f_emu = \<lparr>emu_region = NTSC, emu_cpuCyclesPerFrame = t, emu_nmiPrev = False,
                     emu_frameCounter = i, emu_world = (s, 0)\<rparr>\<rparr>"
  using assms by (simp add: ppuTick_def repoComponents_def dotStep_def serviceNMI_def Let_def)

lemma idle_ticks:
  assumes "d + int n < dotsPerFrame"
  shows "ppuTicks repoComponents n
           \<lparr>f_cpuCyclesRun = c, f_ppuCyclesRun = p, f_framesCompleted = fc,
            f_emu = \<lparr>emu_region = NTSC, emu_cpuCyclesPerFrame = t, emu_nmiPrev = False,
                     emu_frameCounter = i, emu_world = (s, d)\<rparr>\<rparr> =
           \<lparr>f_cpuCyclesRun = c, f_ppuCyclesRun = p + int n, f_framesCompleted = fc,
            f_emu = \<lparr>emu_region = NTSC, emu_cpuCyclesPerFrame = t, emu_nmiPrev = False,
                     emu_frameCounter = i, emu_world = (s, d + int n)\<rparr>\<rparr>"
  using assms
proof (induction n arbitrary: p d)
  case 0
  then show ?case by simp
next
  case (Suc n)
  have "d + 1 < dotsPerFrame" using Suc.prems by simp
  note t = idle_tick [OF this]
  have "d + 1 + int n < dotsPerFrame" using Suc.prems by simp
  from Suc.IH [OF this] show ?case
    by (simp add: t add.assoc)
qed

lemma idle_body:
  assumes "k < 14890"
  shows "frameBody repoComponents (idleFrame k) = idleFrame (Suc k)"
proof -
  have st: "step repoDevices (idleMachine k) = (2, idleMachine (Suc k))"
    using assms by (intro idle_step) simp
  have tk: "6 * int k + int 6 < dotsPerFrame"
    using assms by (simp add: dotsPerFrame_def)
  show ?thesis
    using idle_ticks [OF tk]
    by (simp add: frameBody_def idleFrame_def Emulator_new_def repoComponents_def st
        PPU_PER_CPU_def serviceIRQ_def Let_def)
qed

lemma repo_idle:
  "cpuStep repoComponents (s, d) = (fst (step repoDevices s), (snd (step repoDevices s), d))"
  "apuStep repoComponents c w = w"
  "pumpAudio repoComponents w = w"
  "serviceIRQ repoComponents e = e"
  by (simp_all add: repoComponents_def serviceIRQ_def split_beta)

lemma last_body: "frameBody repoComponents (idleFrame 14890) = lastFrame"
proof -
  have st: "step repoDevices (idleMachine 14890) = (2, idleMachine 14891)"
    using idle_step [of 14890] by simp
  have six: "ppuTicks repoComponents 6 f =
      ppuTicks repoComponents 4 (ppuTick repoComponents (ppuTick repoComponents f))" for f
    by (simp add: numeral_eq_Suc)
  have t1: "(89340::int) + 1 < dotsPerFrame"
    by (simp add: dotsPerFrame_def)
  have t2: "(89341::int) + 1 = dotsPerFrame"
    by (simp add: dotsPerFrame_def)
  have t3: "(0::int) + int 4 < dotsPerFrame"
    by (simp add: dotsPerFrame_def)
  show ?thesis
    using idle_tick [OF t1] wrap_tick [OF t2] idle_ticks [OF t3]
    by (simp add: frameBody_def idleFrame_def lastFrame_def Emulator_new_def repo_idle st
        PPU_PER_CPU_def Let_def six)
qed

lemma last_loop: "frameLoop repoComponents lastFrame = Some lastFrame"
  using frameLoop.simps [of repoComponents lastFrame]
  by (simp add: lastFrame_def)

lemma idle_loop:
  assumes "k \<le> 14890"
  shows "frameLoop repoComponents (idleFrame k) = Some lastFrame"
  using assms
proof (induction k rule: inc_induct)
  case base
  have "frameLoop repoComponents (idleFrame 14890) = frameLoop repoComponents (frameBody repoComponents (idleFrame 14890))"
    using frameLoop.simps [of repoComponents "idleFrame 14890"] target_NTSC [of "2 * 14890"]
    by (simp add: idleFrame_def Emulator_new_def)
  then show ?case
    by (simp add: last_body last_loop)
next
  case (step n)
  have "2 * int n \<le> 29829"
    using step.hyps by simp
  then have c: "of_int (2 * int n) < CPU_HZ NTSC / FPS NTSC"
    by (simp only: target_NTSC)
  have "frameLoop repoComponents (idleFrame n) = frameLoop repoComponents (frameBody repoComponents (idleFrame n))"
    using frameLoop.simps [of repoComponents "idleFrame n"] c
    by (simp add: idleFrame_def Emulator_new_def del: of_int_mult of_int_numeral of_int_of_nat_eq)
  then show ?case
    using step by (simp add: idle_body)
qed

lemma one_instruction_frame:
  assumes st: "step repoDevices s = (2, s1)"
  shows "runFrame repoComponents (Emulator_new NTSC (s, 89341)) =
     Some (\<lparr>cpuCyclesRun = 2, ppuCyclesRun = 6, framesCompleted = 1, frameIndex = 1\<rparr>,
           (Emulator_new NTSC (s1, 5))\<lparr>emu_frameCounter := 1\<rparr>)"
proof -
  let ?f0 = "\<lparr>f_cpuCyclesRun = 0, f_ppuCyclesRun = 0, f_framesCompleted = 0,
              f_emu = Emulator_new NTSC (s, 89341)\<rparr>"
  let ?f1 = "\<lparr>f_cpuCyclesRun = 2, f_ppuCyclesRun = 6, f_framesCompleted = 1,
              f_emu = Emulator_new NTSC (s1, 5)\<rparr>"
  have six: "ppuTicks repoComponents 6 f =
      ppuTicks repoComponents 5 (ppuTick repoComponents f)" for f
    by (simp add: numeral_eq_Suc)
  have t2: "(89341::int) + 1 = dotsPerFrame"
    by (simp add: dotsPerFrame_def)
  have t3: "(0::int) + int 5 < dotsPerFrame"
    by (simp add: dotsPerFrame_def)
  have body: "frameBody repoComponents ?f0 = ?f1"
    using wrap_tick [OF t2] idle_ticks [OF t3]
    by (simp add: frameBody_def Emulator_new_def repo_idle st PPU_PER_CPU_def Let_def six)
  have "frameLoop repoComponents ?f0 = frameLoop repoComponents (frameBody repoComponents ?f0)"
    using frameLoop.simps [of repoComponents ?f0] target_NTSC [of 0]
    by (simp add: Emulator_new_def)
  also have "\<dots> = Some ?f1"
    using frameLoop.simps [of repoComponents ?f1] by (simp add: body)
  finally show ?thesis
    by (simp add: runFrame_def Emulator_new_def)
qed

lemma illegal_step:
  "step repoDevices ((bootMachine (\<lambda>_. 0))\<lparr>m_memory := Memory_write repoDevices 0 0x02 (bootMemory (\<lambda>_. 0))\<rparr>) =
     (2, (bootMachine (\<lambda>_. 0))\<lparr>m_cpu := CPU_new\<lparr>cpu_PC := 1\<rparr>,
            m_memory := Memory_write repoDevices 0 0x02 (bootMemory (\<lambda>_. 0)),
            m_console := [0x02]\<rparr>)"
  by (simp add: step_def execute_def CPU_read_def warn_def bus_defs boot_defs)

lemma tax_step:
  "step repoDevices ((bootMachine (\<lambda>_. 0))\<lparr>m_memory := Memory_write repoDevices 0 0xAA (bootMemory (\<lambda>_. 0))\<rparr>) =
     (2, (bootMachine (\<lambda>_. 0))\<lparr>m_cpu := CPU_new\<lparr>cpu_PC := 1, cpu_status := 0x26\<rparr>,
            m_memory := Memory_write repoDevices 0 0xAA (bootMemory (\<lambda>_. 0)),
            m_console := []\<rparr>)"
  by (simp add: step_def execute_def CPU_read_def warn_def setZN_def setFlag_def FLAG_N_def FLAG_Z_def
      bus_defs boot_defs)

lemma dotClockD:
  assumes "dotClock C"
  shows "fst (ppuStep C w) = fst (dotStep (snd w))"
    and "snd (snd (ppuStep C w)) = snd (dotStep (snd w))"
    and "snd (snd (cpuStep C w)) = snd w"
    and "snd (cpuNmi C w) = snd w"
    and "snd (cpuIrq C level w) = snd w"
    and "snd (apuStep C c w) = snd w"
    and "snd (pumpAudio C w) = snd w"
    and "snd (videoSink C w) = snd w"
  using assms unfolding dotClock_def by blast+

lemma dot_tick:
  assumes "dotClock C"
  shows "snd (emu_world (f_emu (ppuTick C f))) = snd (dotStep (snd (emu_world (f_emu f)))) \<and>
         f_framesCompleted (ppuTick C f) =
           f_framesCompleted f + (if fst (dotStep (snd (emu_world (f_emu f)))) then 1 else 0)"
  by (simp add: dotClockD [OF assms] ppuTick_def serviceNMI_def Let_def split_beta)

lemma dot_ticks:
  assumes C: "dotClock C"
  shows "0 \<le> snd (emu_world (f_emu f)) \<Longrightarrow> snd (emu_world (f_emu f)) < dotsPerFrame \<Longrightarrow>
     snd (emu_world (f_emu f)) + int n < 2 * dotsPerFrame \<Longrightarrow>
     snd (emu_world (f_emu (ppuTicks C n f))) =
       (if snd (emu_world (f_emu f)) + int n < dotsPerFrame
        then snd (emu_world (f_emu f)) + int n
        else snd (emu_world (f_emu f)) + int n - dotsPerFrame) \<and>
     f_framesCompleted (ppuTicks C n f) =
       f_framesCompleted f + (if snd (emu_world (f_emu f)) + int n < dotsPerFrame then 0 else 1)"
proof (induction n arbitrary: f)
  case 0
  then show ?case by simp
next
  case (Suc n)
  let ?d = "snd (emu_world (f_emu f))"
  let ?g = "ppuTick C f"
  let ?e = "snd (emu_world (f_emu ?g))"
  have t: "?e = (if ?d + 1 \<ge> dotsPerFrame then 0 else ?d + 1)"
     "f_framesCompleted ?g = f_framesCompleted f + (if ?d + 1 \<ge> dotsPerFrame then 1 else 0)"
    using dot_tick [OF C, of f] by (simp_all add: dotStep_def)
  have p: "0 < dotsPerFrame"
    by (simp add: dotsPerFrame_def)
  have a: "0 \<le> ?e" "?e < dotsPerFrame" "?e + int n < 2 * dotsPerFrame"
    using Suc.prems p by (simp_all add: t)
  from Suc.IH [OF a] show ?case
    using Suc.prems p by (simp add: t)
qed


lemma dot_body:
  assumes C: "dotClock C"
    and cyc: "\<forall>w. 1 \<le> fst (cpuStep C w) \<and> fst (cpuStep C w) \<le> 7"
    and r: "emu_region (f_emu f) = NTSC"
    and d: "0 \<le> snd (emu_world (f_emu f))" "snd (emu_world (f_emu f)) < dotsPerFrame"
  shows "snd (emu_world (f_emu (frameBody C f))) =
       (if snd (emu_world (f_emu f)) + 3 * fst (cpuStep C (emu_world (f_emu f))) < dotsPerFrame
        then snd (emu_world (f_emu f)) + 3 * fst (cpuStep C (emu_world (f_emu f)))
        else snd (emu_world (f_emu f)) + 3 * fst (cpuStep C (emu_world (f_emu f))) - dotsPerFrame) \<and>
     f_framesCompleted (frameBody C f) =
       f_framesCompleted f +
       (if snd (emu_world (f_emu f)) + 3 * fst (cpuStep C (emu_world (f_emu f))) < dotsPerFrame
        then 0 else 1)"
proof -
  let ?c = "fst (cpuStep C (emu_world (f_emu f)))"
  let ?w1 = "snd (cpuStep C (emu_world (f_emu f)))"
  let ?f1 = "f\<lparr>f_cpuCyclesRun := f_cpuCyclesRun f + ?c, f_emu := (f_emu f)\<lparr>emu_world := ?w1\<rparr>\<rparr>"
  have b: "1 \<le> ?c" "?c \<le> 7"
    using cyc by blast+
  then have n: "int (nat (?c * 3)) = 3 * ?c"
    by simp
  have w: "snd (emu_world (f_emu ?f1)) = snd (emu_world (f_emu f))"
    by (simp add: dotClockD [OF C])
  have "snd (emu_world (f_emu ?f1)) + int (nat (?c * 3)) < 2 * dotsPerFrame"
    using d b unfolding w n by (simp add: dotsPerFrame_def)
  from dot_ticks [OF C _ _ this] d
  have t: "snd (emu_world (f_emu (ppuTicks C (nat (?c * 3)) ?f1))) =
       (if snd (emu_world (f_emu f)) + 3 * ?c < dotsPerFrame
        then snd (emu_world (f_emu f)) + 3 * ?c
        else snd (emu_world (f_emu f)) + 3 * ?c - dotsPerFrame) \<and>
     f_framesCompleted (ppuTicks C (nat (?c * 3)) ?f1) =
       f_framesCompleted f + (if snd (emu_world (f_emu f)) + 3 * ?c < dotsPerFrame then 0 else 1)"
    unfolding w n by simp
  show ?thesis
    using t r
    by (simp add: frameBody_def serviceIRQ_def Let_def split_beta PPU_PER_CPU_def dotClockD [OF C])
qed

lemma dot_loop:
  assumes C: "dotClock C"
    and cyc: "\<forall>w. 1 \<le> fst (cpuStep C w) \<and> fst (cpuStep C w) \<le> 7"
  shows "dotInv d0 f \<Longrightarrow>
     \<exists>f'. frameLoop C f = Some f' \<and>
          f_framesCompleted f' = 1 \<and>
          f_ppuCyclesRun f' = 3 * f_cpuCyclesRun f' \<and>
          dotsPerFrame - d0 \<le> 3 * f_cpuCyclesRun f' \<and>
          3 * f_cpuCyclesRun f' < dotsPerFrame - d0 + 21 \<and>
          snd (emu_world (f_emu f')) = d0 + 3 * f_cpuCyclesRun f' - dotsPerFrame \<and>
          emu_region (f_emu f') = NTSC \<and>
          emu_cpuCyclesPerFrame (f_emu f') = CPU_HZ NTSC / FPS NTSC \<and>
          emu_frameCounter (f_emu f') = emu_frameCounter (f_emu f)"
proof (induction "nat (dotsPerFrame - snd (emu_world (f_emu f)))" arbitrary: f rule: less_induct)
  case less
  let ?c = "fst (cpuStep C (emu_world (f_emu f)))"
  let ?g = "frameBody C f"
  have b: "1 \<le> ?c" "?c \<le> 7"
    using cyc by blast+
  have i: "emu_region (f_emu f) = NTSC"
      "emu_cpuCyclesPerFrame (f_emu f) = CPU_HZ NTSC / FPS NTSC"
      "f_framesCompleted f = 0" "f_ppuCyclesRun f = 3 * f_cpuCyclesRun f"
      "0 \<le> f_cpuCyclesRun f" "0 \<le> d0"
      "snd (emu_world (f_emu f)) = d0 + 3 * f_cpuCyclesRun f"
      "d0 + 3 * f_cpuCyclesRun f < dotsPerFrame"
    using less.prems by (simp_all add: dotInv_def)
  have le: "f_cpuCyclesRun f \<le> 29829"
    using i by (simp add: dotsPerFrame_def)
  have u: "frameLoop C f = frameLoop C ?g"
    using frameLoop.simps [of C f] i le by (simp add: target_NTSC)
  have fl: "f_cpuCyclesRun ?g = f_cpuCyclesRun f + ?c"
      "f_ppuCyclesRun ?g = f_ppuCyclesRun f + 3 * ?c"
      "emu_region (f_emu ?g) = NTSC"
      "emu_cpuCyclesPerFrame (f_emu ?g) = CPU_HZ NTSC / FPS NTSC"
      "emu_frameCounter (f_emu ?g) = emu_frameCounter (f_emu f)"
    using frameBody_fields [OF i(1), of C] b i by simp_all
  have db: "snd (emu_world (f_emu ?g)) =
       (if d0 + 3 * f_cpuCyclesRun f + 3 * ?c < dotsPerFrame
        then d0 + 3 * f_cpuCyclesRun f + 3 * ?c
        else d0 + 3 * f_cpuCyclesRun f + 3 * ?c - dotsPerFrame)"
      "f_framesCompleted ?g =
       (if d0 + 3 * f_cpuCyclesRun f + 3 * ?c < dotsPerFrame then 0 else 1)"
    using dot_body [OF C cyc i(1), of ] i by simp_all
  show ?case
  proof (cases "d0 + 3 * f_cpuCyclesRun f + 3 * ?c < dotsPerFrame")
    case True
    have inv: "dotInv d0 ?g"
      using True i b by (simp add: dotInv_def fl db)
    have "nat (dotsPerFrame - snd (emu_world (f_emu ?g))) < nat (dotsPerFrame - snd (emu_world (f_emu f)))"
      using True i b by (simp add: db)
    from less.hyps [OF this inv] show ?thesis
      by (simp add: u fl)
  next
    case False
    have "frameLoop C ?g = Some ?g"
      using frameLoop.simps [of C ?g] False by (simp add: db)
    then show ?thesis
      using False i b by (simp add: u fl db)
  qed
qed

lemma step_cycles: "fst (step dev s) = 2"
  by (simp add: step_def execute_def split_beta Let_def)

section \<open>The claim about the controllers\<close>

text \<open>
  C5, as the code has it. For every state of the bus, and so every button state of port 1:
  after the bus writes of 1 and then 0 to 0x4016, the first eight bus reads of 0x4016
  return the buttons A, B, Select, Start, Up, Down, Left, Right in bit 0, each ORed with
  0x40, and every later read returns 0x40, bit 0 clear: \<^verbatim>\<open>read\<close> shifts the register right
  and nothing is fed into its top.
\<close>

theorem controller_shift_sequence:
  "fst (Memory_reads dev 0x4016 (8 + n) (Memory_writes dev [(0x4016, 1), (0x4016, 0)] m)) =
     map (\<lambda>x. bit01 x OR 0x40)
       [btn_A (ctl_buttons (player1 (mem_controllers m))),
        btn_B (ctl_buttons (player1 (mem_controllers m))),
        btn_Select (ctl_buttons (player1 (mem_controllers m))),
        btn_Start (ctl_buttons (player1 (mem_controllers m))),
        btn_Up (ctl_buttons (player1 (mem_controllers m))),
        btn_Down (ctl_buttons (player1 (mem_controllers m))),
        btn_Left (ctl_buttons (player1 (mem_controllers m))),
        btn_Right (ctl_buttons (player1 (mem_controllers m)))] @ replicate n 0x40 \<and>
   map (\<lambda>v. v AND 1)
     (fst (Memory_reads dev 0x4016 (8 + n) (Memory_writes dev [(0x4016, 1), (0x4016, 0)] m))) =
     map bit01
       [btn_A (ctl_buttons (player1 (mem_controllers m))),
        btn_B (ctl_buttons (player1 (mem_controllers m))),
        btn_Select (ctl_buttons (player1 (mem_controllers m))),
        btn_Start (ctl_buttons (player1 (mem_controllers m))),
        btn_Up (ctl_buttons (player1 (mem_controllers m))),
        btn_Down (ctl_buttons (player1 (mem_controllers m))),
        btn_Left (ctl_buttons (player1 (mem_controllers m))),
        btn_Right (ctl_buttons (player1 (mem_controllers m)))] @ replicate n 0"
  unfolding reads_after_strobe
  by (simp add: bit01_def)

theorem controller_shift_sequence_witness:
  "fst (Memory_reads repoDevices 0x4016 10
     (Memory_writes repoDevices [(0x4016, 1), (0x4016, 0)]
        ((bootMemory (\<lambda>_. 0))\<lparr>mem_controllers :=
            Input_new\<lparr>player1 := setButton ''A'' True (setButton ''Right'' True Controller_new)\<rparr>\<rparr>))) =
     [0x41, 0x40, 0x40, 0x40, 0x40, 0x40, 0x40, 0x41, 0x40, 0x40]"
  using controller_shift_sequence [of repoDevices 2
     "(bootMemory (\<lambda>_. 0))\<lparr>mem_controllers :=
        Input_new\<lparr>player1 := setButton ''A'' True (setButton ''Right'' True Controller_new)\<rparr>\<rparr>"]
  by (simp add: setButton_def setNamed_def Controller_new_def bit01_def truthy_def numeral_eq_Suc)

text \<open>
  C5 as stated fails at the ninth read. With only Start pressed, the nine reads after the
  strobe return 0x40 three times, 0x41, and 0x40 five times: the ninth value has bit 0
  clear, where the claim says 1.
\<close>

theorem controller_ninth_read_counterexample:
  "fst (Memory_reads repoDevices 0x4016 9
     (Memory_writes repoDevices [(0x4016, 1), (0x4016, 0)]
        ((bootMemory (\<lambda>_. 0))\<lparr>mem_controllers :=
            Input_new\<lparr>player1 := setButton ''Start'' True Controller_new\<rparr>\<rparr>))) =
     [0x40, 0x40, 0x40, 0x41, 0x40, 0x40, 0x40, 0x40, 0x40] \<and>
   (0x40::int) AND 1 = 0"
  using reads_after_strobe [of repoDevices 1
     "(bootMemory (\<lambda>_. 0))\<lparr>mem_controllers :=
        Input_new\<lparr>player1 := setButton ''Start'' True Controller_new\<rparr>\<rparr>"]
  by (simp add: setButton_def setNamed_def Controller_new_def bit01_def truthy_def numeral_eq_Suc)

section \<open>The claims about the CPU\<close>

text \<open>
  C1, as the code has it. After \<^verbatim>\<open>reset\<close>, from any state of the machine: SP is 0xFD, the
  I flag is set, and PC is \<^verbatim>\<open>(high << 8) | low\<close> of the bus reads of 0xFFFC and then
  0xFFFD, which the bus takes from the cartridge; and A, X and Y are 0, whatever they
  were before.
\<close>

theorem reset_registers:
  "cpu_SP (m_cpu (CPU_reset dev s)) = 0xFD \<and>
   getFlag FLAG_I (CPU_reset dev s) \<and>
   cpu_PC (m_cpu (CPU_reset dev s)) =
     push_bit 8 (fst (Memory_read dev (0xFFFC + 1) (snd (Memory_read dev 0xFFFC (m_memory s)))))
     OR fst (Memory_read dev 0xFFFC (m_memory s)) \<and>
   fst (Memory_read dev 0xFFFC (m_memory s)) =
     fst (cartridge_cpuRead dev 0xFFFC (mem_cartridge (m_memory s))) \<and>
   fst (Memory_read dev (0xFFFC + 1) (snd (Memory_read dev 0xFFFC (m_memory s)))) =
     fst (cartridge_cpuRead dev 0xFFFD
            (snd (cartridge_cpuRead dev 0xFFFC (mem_cartridge (m_memory s))))) \<and>
   cpu_A (m_cpu (CPU_reset dev s)) = 0 \<and>
   cpu_X (m_cpu (CPU_reset dev s)) = 0 \<and>
   cpu_Y (m_cpu (CPU_reset dev s)) = 0"
  by (simp add: reset_regs getFlag_def FLAG_I_def Memory_read_cartridge)

theorem reset_registers_witness:
  "cpu_PC (m_cpu (CPU_reset repoDevices
      (bootMachine ((\<lambda>_. 0)(0xFFFC := 0x34, 0xFFFD := 0x12))))) = 0x1234 \<and>
   cpu_SP (m_cpu (CPU_reset repoDevices
      (bootMachine ((\<lambda>_. 0)(0xFFFC := 0x34, 0xFFFD := 0x12))))) = 0xFD"
  using reset_registers [of repoDevices "bootMachine ((\<lambda>_. 0)(0xFFFC := 0x34, 0xFFFD := 0x12))"]
  by (simp add: boot_defs)

text \<open>
  C1 as stated fails on the registers: a machine with A = 5, X = 6 and Y = 7 has A = 0,
  X = 0 and Y = 0 after \<^verbatim>\<open>reset\<close>.
\<close>

theorem reset_clears_registers_counterexample:
  "cpu_A (m_cpu ((bootMachine (\<lambda>_. 0))\<lparr>m_cpu := CPU_new\<lparr>cpu_A := 5, cpu_X := 6, cpu_Y := 7\<rparr>\<rparr>)) = 5 \<and>
   cpu_A (m_cpu (CPU_reset repoDevices
     ((bootMachine (\<lambda>_. 0))\<lparr>m_cpu := CPU_new\<lparr>cpu_A := 5, cpu_X := 6, cpu_Y := 7\<rparr>\<rparr>))) = 0 \<and>
   cpu_X (m_cpu (CPU_reset repoDevices
     ((bootMachine (\<lambda>_. 0))\<lparr>m_cpu := CPU_new\<lparr>cpu_A := 5, cpu_X := 6, cpu_Y := 7\<rparr>\<rparr>))) = 0 \<and>
   cpu_Y (m_cpu (CPU_reset repoDevices
     ((bootMachine (\<lambda>_. 0))\<lparr>m_cpu := CPU_new\<lparr>cpu_A := 5, cpu_X := 6, cpu_Y := 7\<rparr>\<rparr>))) = 0"
  by (simp add: reset_regs CPU_new_def)

text \<open>
  C8, as the code has it. For every opcode outside the set its \<^verbatim>\<open>execute\<close> handles (0xA9,
  0xAA, 0xE8 for the class; 0xA9, 0x85, 0x8D, 0x4C, 0x00, 0x69, 0xE9, 0x48, 0x68 for the
  version with the addressing helpers), \<^verbatim>\<open>step\<close> returns 2 and leaves A, X, Y, SP and the
  status as they were, with PC one higher; the opcode fetch is its only bus access, and no
  bus read changes the RAM; \<^verbatim>\<open>console.warn\<close> is called with the opcode. There is no counter:
  a \<^verbatim>\<open>FrameStats\<close> is its four fields \<^verbatim>\<open>cpuCyclesRun\<close>, \<^verbatim>\<open>ppuCyclesRun\<close>, \<^verbatim>\<open>framesCompleted\<close> and
  \<^verbatim>\<open>frameIndex\<close>.
\<close>

theorem unhandled_opcode_is_nop:
  "(fst (Memory_read dev (cpu_PC (m_cpu s)) (m_memory s)) \<notin> {0xA9, 0xAA, 0xE8} \<longrightarrow>
      step dev s =
        (2, s\<lparr>m_cpu := (m_cpu s)\<lparr>cpu_PC := cpu_PC (m_cpu s) + 1\<rparr>,
              m_memory := snd (Memory_read dev (cpu_PC (m_cpu s)) (m_memory s)),
              m_console := m_console s @ [fst (Memory_read dev (cpu_PC (m_cpu s)) (m_memory s))]\<rparr>)) \<and>
   (fst (Memory_read dev (cpu_PC (m_cpu s)) (m_memory s))
        \<notin> {0xA9, 0x85, 0x8D, 0x4C, 0x00, 0x69, 0xE9, 0x48, 0x68} \<longrightarrow>
      step2 dev s =
        (2, s\<lparr>m_cpu := (m_cpu s)\<lparr>cpu_PC := cpu_PC (m_cpu s) + 1\<rparr>,
              m_memory := snd (Memory_read dev (cpu_PC (m_cpu s)) (m_memory s)),
              m_console := m_console s @ [fst (Memory_read dev (cpu_PC (m_cpu s)) (m_memory s))]\<rparr>)) \<and>
   mem_ram (snd (Memory_read dev (cpu_PC (m_cpu s)) (m_memory s))) = mem_ram (m_memory s) \<and>
   (st::FrameStats) =
     \<lparr>cpuCyclesRun = cpuCyclesRun st, ppuCyclesRun = ppuCyclesRun st,
      framesCompleted = framesCompleted st, frameIndex = frameIndex st\<rparr>"
  using step_unhandled [of dev s] step2_unhandled [of dev s]
  by (simp add: Memory_read_ram_unchanged)

theorem unhandled_opcode_is_nop_witness:
  "fst (Memory_read repoDevices 0
      (Memory_write repoDevices 0 0x02 (bootMemory (\<lambda>_. 0)))) = 0x02 \<and>
   (0x02::int) \<notin> {0xA9, 0xAA, 0xE8} \<and>
   (0x02::int) \<notin> {0xA9, 0x85, 0x8D, 0x4C, 0x00, 0x69, 0xE9, 0x48, 0x68} \<and>
   step repoDevices
     ((bootMachine (\<lambda>_. 0))\<lparr>m_memory := Memory_write repoDevices 0 0x02 (bootMemory (\<lambda>_. 0))\<rparr>) =
     (2, (bootMachine (\<lambda>_. 0))\<lparr>m_cpu := CPU_new\<lparr>cpu_PC := 1\<rparr>,
            m_memory := Memory_write repoDevices 0 0x02 (bootMemory (\<lambda>_. 0)),
            m_console := [0x02]\<rparr>) \<and>
   step2 repoDevices
     ((bootMachine (\<lambda>_. 0))\<lparr>m_memory := Memory_write repoDevices 0 0x02 (bootMemory (\<lambda>_. 0))\<rparr>) =
     (2, (bootMachine (\<lambda>_. 0))\<lparr>m_cpu := CPU_new\<lparr>cpu_PC := 1\<rparr>,
            m_memory := Memory_write repoDevices 0 0x02 (bootMemory (\<lambda>_. 0)),
            m_console := [0x02]\<rparr>)"
  using unhandled_opcode_is_nop [of repoDevices
     "(bootMachine (\<lambda>_. 0))\<lparr>m_memory := Memory_write repoDevices 0 0x02 (bootMemory (\<lambda>_. 0))\<rparr>"]
  by (simp add: bus_defs boot_defs)

text \<open>
  C8 as stated fails on the counter. Two frames of one instruction each, from a PPU one
  dot before the end of its frame: in the first the CPU runs the unhandled opcode 0x02
  and warns, in the second it runs TAX (0xAA) and does not. Both return the same
  \<^verbatim>\<open>FrameStats\<close>, so nothing in it counts the unhandled opcode.
\<close>

theorem frame_stats_counterexample:
  "map_option fst (runFrame repoComponents (Emulator_new NTSC
      ((bootMachine (\<lambda>_. 0))\<lparr>m_memory := Memory_write repoDevices 0 0x02 (bootMemory (\<lambda>_. 0))\<rparr>, 89341))) =
     Some \<lparr>cpuCyclesRun = 2, ppuCyclesRun = 6, framesCompleted = 1, frameIndex = 1\<rparr> \<and>
   map_option (\<lambda>r. m_console (fst (emu_world (snd r)))) (runFrame repoComponents (Emulator_new NTSC
      ((bootMachine (\<lambda>_. 0))\<lparr>m_memory := Memory_write repoDevices 0 0x02 (bootMemory (\<lambda>_. 0))\<rparr>, 89341))) =
     Some [0x02] \<and>
   map_option fst (runFrame repoComponents (Emulator_new NTSC
      ((bootMachine (\<lambda>_. 0))\<lparr>m_memory := Memory_write repoDevices 0 0xAA (bootMemory (\<lambda>_. 0))\<rparr>, 89341))) =
     Some \<lparr>cpuCyclesRun = 2, ppuCyclesRun = 6, framesCompleted = 1, frameIndex = 1\<rparr> \<and>
   map_option (\<lambda>r. m_console (fst (emu_world (snd r)))) (runFrame repoComponents (Emulator_new NTSC
      ((bootMachine (\<lambda>_. 0))\<lparr>m_memory := Memory_write repoDevices 0 0xAA (bootMemory (\<lambda>_. 0))\<rparr>, 89341))) =
     Some []"
  unfolding one_instruction_frame [OF illegal_step] one_instruction_frame [OF tax_step]
  by (simp add: Emulator_new_def)

section \<open>The claim about OAM DMA\<close>

lemma Memory_write_keeps_ppu_4014: "mem_ppu (Memory_write dev 0x4014 v m) = mem_ppu m"
  by (simp add: bus_write_4014)

text \<open>
  C4: a write of page P to 0x4014 through the bus copies 256 bytes from \<open>P << 8\<close> into the
  OAM and costs 513 or 514 CPU cycles. The code misses this. The PPU has the copy, under
  case 0x4014 of \<^verbatim>\<open>writeRegister\<close>, but the bus sends a write of 0x4014 to the APU, which
  has no case for it, and no cycle is added anywhere. With 7 in RAM at 0x0200, the bus
  write of page 0x02 to 0x4014 leaves the PPU as it was, OAM entry 0 still 0. A CPU with
  A = 0x02 running STA $4014 (8D 14 40) returns 4 cycles from the \<^verbatim>\<open>execute\<close> that has STA,
  and 2 from the class's \<^verbatim>\<open>execute\<close>, which does not handle 0x8D; the OAM is unchanged
  after either.
\<close>

theorem bus_write_4014_skips_dma:
  "fst (Memory_read repoDevices 0x0200 (Memory_write repoDevices 0x4014 0x02
      (Memory_writes repoDevices [(0x0200, 7)] (bootMemory (\<lambda>_. 0))))) = 7 \<and>
   ppu_oam (mem_ppu (Memory_write repoDevices 0x4014 0x02
      (Memory_writes repoDevices [(0x0200, 7)] (bootMemory (\<lambda>_. 0))))) 0 = 0 \<and>
   mem_ppu (Memory_write repoDevices 0x4014 0x02
      (Memory_writes repoDevices [(0x0200, 7)] (bootMemory (\<lambda>_. 0)))) =
     mem_ppu (Memory_writes repoDevices [(0x0200, 7)] (bootMemory (\<lambda>_. 0))) \<and>
   fst (step2 repoDevices ((bootMachine (\<lambda>_. 0))\<lparr>m_cpu := CPU_new\<lparr>cpu_A := 0x02\<rparr>,
      m_memory := Memory_writes repoDevices [(0, 0x8D), (1, 0x14), (2, 0x40), (0x0200, 7)]
                    (bootMemory (\<lambda>_. 0))\<rparr>)) = 4 \<and>
   ppu_oam (mem_ppu (m_memory (snd (step2 repoDevices
     ((bootMachine (\<lambda>_. 0))\<lparr>m_cpu := CPU_new\<lparr>cpu_A := 0x02\<rparr>,
      m_memory := Memory_writes repoDevices [(0, 0x8D), (1, 0x14), (2, 0x40), (0x0200, 7)]
                    (bootMemory (\<lambda>_. 0))\<rparr>))))) 0 = 0 \<and>
   mem_ram (m_memory (snd (step2 repoDevices
     ((bootMachine (\<lambda>_. 0))\<lparr>m_cpu := CPU_new\<lparr>cpu_A := 0x02\<rparr>,
      m_memory := Memory_writes repoDevices [(0, 0x8D), (1, 0x14), (2, 0x40), (0x0200, 7)]
                    (bootMemory (\<lambda>_. 0))\<rparr>)))) 0x0200 = 7 \<and>
   fst (step repoDevices ((bootMachine (\<lambda>_. 0))\<lparr>m_cpu := CPU_new\<lparr>cpu_A := 0x02\<rparr>,
      m_memory := Memory_writes repoDevices [(0, 0x8D), (1, 0x14), (2, 0x40), (0x0200, 7)]
                    (bootMemory (\<lambda>_. 0))\<rparr>)) = 2 \<and>
   ppu_oam (mem_ppu (m_memory (snd (step repoDevices
     ((bootMachine (\<lambda>_. 0))\<lparr>m_cpu := CPU_new\<lparr>cpu_A := 0x02\<rparr>,
      m_memory := Memory_writes repoDevices [(0, 0x8D), (1, 0x14), (2, 0x40), (0x0200, 7)]
                    (bootMemory (\<lambda>_. 0))\<rparr>))))) 0 = 0"
  by (simp add: Memory_write_keeps_ppu_4014 step_cycles,
      simp add: step_def execute_def warn_def step2_def execute2_def getAbsoluteAddr_def
        readWord_def CPU_read_def CPU_write_def APU_write_def bus_defs boot_defs)

section \<open>The claim about the DMC channel\<close>

text \<open>
  C9. From the constructor's state, and from every state whose level is within 0 to 127,
  any sequence of register writes, enable calls and steps leaves the output level within
  0 to 127. A step changes the level by +2, by -2 or not at all: when a bit is shifted
  out, by +2 for a 1 bit if the result is at most 127, by -2 for a 0 bit if the result is
  at least 0, and otherwise not; this holds when bits remain in the shift register and
  when the step first fetches a byte. When the last byte of a sample is fetched, the
  channel restarts at the sample address with the sample length when the loop flag is
  set, and otherwise ends with length 0 and raises the DMC IRQ if it is enabled.
\<close>

theorem dmc_output_level:
  "(levelOk d \<longrightarrow> levelOk (fst (dmc_run rd calls (d, m)))) \<and>
   0 \<le> dmc_outputLevel (fst (dmc_run rd calls (DMCChannel_new, m))) \<and>
   dmc_outputLevel (fst (dmc_run rd calls (DMCChannel_new, m))) \<le> 127 \<and>
   dmc_outputLevel (fst (DMC_step rd (d, m))) \<in>
     {dmc_outputLevel d, dmc_outputLevel d + 2, dmc_outputLevel d - 2} \<and>
   (dmc_enabled d \<and> dmc_bitsRemaining d > 0 \<longrightarrow>
      dmc_outputLevel (fst (DMC_step rd (d, m))) =
        (if dmc_shiftRegister d AND 1 \<noteq> 0
         then (if dmc_outputLevel d + 2 \<le> 127 then dmc_outputLevel d + 2 else dmc_outputLevel d)
         else (if 0 \<le> dmc_outputLevel d - 2 then dmc_outputLevel d - 2 else dmc_outputLevel d))) \<and>
   (dmc_enabled d \<and> dmc_bitsRemaining d = 0 \<and> dmc_bufferEmpty d \<and> dmc_currentLength d > 0 \<longrightarrow>
      dmc_outputLevel (fst (DMC_step rd (d, m))) =
        (if fst (rd (dmc_currentAddress d) m) AND 1 \<noteq> 0
         then (if dmc_outputLevel d + 2 \<le> 127 then dmc_outputLevel d + 2 else dmc_outputLevel d)
         else (if 0 \<le> dmc_outputLevel d - 2 then dmc_outputLevel d - 2 else dmc_outputLevel d))) \<and>
   (dmc_currentLength d = 1 \<longrightarrow>
      dmc_sampleBuffer (fst (fetchSample rd (d, m))) = fst (rd (dmc_currentAddress d) m) \<and>
      (if dmc_loop d
       then dmc_currentLength (fst (fetchSample rd (d, m))) = dmc_sampleLength d \<and>
            dmc_currentAddress (fst (fetchSample rd (d, m))) = dmc_sampleAddress d \<and>
            dmc_dmcIRQ (fst (fetchSample rd (d, m))) = dmc_dmcIRQ d
       else dmc_currentLength (fst (fetchSample rd (d, m))) = 0 \<and>
            dmc_dmcIRQ (fst (fetchSample rd (d, m))) = (dmc_irqEnabled d \<or> dmc_dmcIRQ d)))"
proof -
  have a: "levelOk d \<longrightarrow> levelOk (fst (dmc_run rd calls (d, m)))"
    using dmc_run_ok [of "(d, m)" rd calls] by simp
  have "levelOk DMCChannel_new"
    by (simp add: levelOk_def DMCChannel_new_def)
  then have "levelOk (fst (dmc_run rd calls (DMCChannel_new, m)))"
    using dmc_run_ok [of "(DMCChannel_new, m)" rd calls] by simp
  then have b: "0 \<le> dmc_outputLevel (fst (dmc_run rd calls (DMCChannel_new, m))) \<and>
      dmc_outputLevel (fst (dmc_run rd calls (DMCChannel_new, m))) \<le> 127"
    by (simp add: levelOk_def)
  have c: "dmc_enabled d \<and> dmc_bitsRemaining d > 0 \<longrightarrow>
      dmc_outputLevel (fst (DMC_step rd (d, m))) =
        (if dmc_shiftRegister d AND 1 \<noteq> 0
         then (if dmc_outputLevel d + 2 \<le> 127 then dmc_outputLevel d + 2 else dmc_outputLevel d)
         else (if 0 \<le> dmc_outputLevel d - 2 then dmc_outputLevel d - 2 else dmc_outputLevel d))"
    by (simp add: DMC_step_shifting shiftBit_level)
  show ?thesis
    using a b c DMC_step_delta [of rd d m] DMC_step_fetching [of d rd m] fetch_last [of d rd m]
    by blast
qed

theorem dmc_output_level_witness:
  "levelOk DMCChannel_new \<and>
   dmc_outputLevel (fst (dmc_run (Memory_read repoDevices)
      [DmcWrite 0x4011 0x7E, DmcWrite 0x4010 0x80, DmcSetEnabled 16, DmcStep]
      (DMCChannel_new, bootMemory (\<lambda>_. 0x01)))) = 126 \<and>
   dmc_dmcIRQ (fst (dmc_run (Memory_read repoDevices)
      [DmcWrite 0x4011 0x7E, DmcWrite 0x4010 0x80, DmcSetEnabled 16, DmcStep]
      (DMCChannel_new, bootMemory (\<lambda>_. 0x01)))) \<and>
   dmc_outputLevel (fst (dmc_run (Memory_read repoDevices)
      [DmcWrite 0x4011 0x7C, DmcSetEnabled 16, DmcStep]
      (DMCChannel_new, bootMemory (\<lambda>_. 0x01)))) = 126"
  using dmc_output_level [of DMCChannel_new "Memory_read repoDevices"
          "[DmcWrite 0x4011 0x7E, DmcWrite 0x4010 0x80, DmcSetEnabled 16, DmcStep]"
          "bootMemory (\<lambda>_. 0x01)"]
  by (simp add: levelOk_def dmc_run_def DMC_write_def DMC_setEnabled_def restartSample_def
      DMC_step_def refill_def fetchSample_def shiftBit_def truthy_def DMCChannel_new_def
      Memory_read_def bootMemory_def Memory_new_def Memory_reset_def repoDevices_def)

section \<open>The claim about the scheduler\<close>

text \<open>
  C6, as the code has it. In the NTSC region, with a PPU of 341 dots on each of 262 lines
  that is \<open>d\<close> dots into its frame when \<^verbatim>\<open>runFrame\<close> is called, and a CPU whose \<^verbatim>\<open>step()\<close>
  returns from 1 to 7 cycles each time: the call returns, exactly one frame completes
  during it, and it stops after the first instruction at which three times
  \<^verbatim>\<open>cpuCyclesRun\<close> reaches the \<open>89342 - d\<close> dots that were left, at most 20 dots into the next
  frame. So \<^verbatim>\<open>cpuCyclesRun\<close> is from 29774 to 29787 when \<open>d\<close> is at most 20, as it is at power-on
  (\<open>d = 0\<close>, from 29781 to 29787) and again after every \<^verbatim>\<open>runFrame\<close>; \<^verbatim>\<open>ppuCyclesRun\<close> is three
  times \<^verbatim>\<open>cpuCyclesRun\<close> and \<^verbatim>\<open>frameIndex\<close> is the frame counter before the call plus 1.
\<close>

theorem run_frame_one_frame:
  assumes "dotClock C"
    and "\<forall>w. 1 \<le> fst (cpuStep C w) \<and> fst (cpuStep C w) \<le> 7"
    and "emu_region e = NTSC"
    and "emu_cpuCyclesPerFrame e = CPU_HZ NTSC / FPS NTSC"
    and "0 \<le> snd (emu_world e)" and "snd (emu_world e) < dotsPerFrame"
  shows "\<exists>st e'. runFrame C e = Some (st, e') \<and>
     framesCompleted st = 1 \<and>
     89342 - snd (emu_world e) \<le> 3 * cpuCyclesRun st \<and>
     3 * cpuCyclesRun st < 89342 - snd (emu_world e) + 21 \<and>
     (snd (emu_world e) \<le> 20 \<longrightarrow> 29774 \<le> cpuCyclesRun st \<and> cpuCyclesRun st \<le> 29787) \<and>
     (snd (emu_world e) = 0 \<longrightarrow> 29781 \<le> cpuCyclesRun st \<and> cpuCyclesRun st \<le> 29787) \<and>
     ppuCyclesRun st = 3 * cpuCyclesRun st \<and>
     frameIndex st = emu_frameCounter e + 1 \<and>
     emu_region e' = NTSC \<and>
     emu_cpuCyclesPerFrame e' = CPU_HZ NTSC / FPS NTSC \<and>
     0 \<le> snd (emu_world e') \<and> snd (emu_world e') \<le> 20"
proof -
  let ?f0 = "\<lparr>f_cpuCyclesRun = 0, f_ppuCyclesRun = 0, f_framesCompleted = 0, f_emu = e\<rparr>"
  have "dotInv (snd (emu_world e)) ?f0"
    using assms by (simp add: dotInv_def)
  from dot_loop [OF assms(1) assms(2) this]
  obtain f' where f': "frameLoop C ?f0 = Some f'"
      "f_framesCompleted f' = 1"
      "f_ppuCyclesRun f' = 3 * f_cpuCyclesRun f'"
      "dotsPerFrame - snd (emu_world e) \<le> 3 * f_cpuCyclesRun f'"
      "3 * f_cpuCyclesRun f' < dotsPerFrame - snd (emu_world e) + 21"
      "snd (emu_world (f_emu f')) = snd (emu_world e) + 3 * f_cpuCyclesRun f' - dotsPerFrame"
      "emu_region (f_emu f') = NTSC"
      "emu_cpuCyclesPerFrame (f_emu f') = CPU_HZ NTSC / FPS NTSC"
      "emu_frameCounter (f_emu f') = emu_frameCounter e"
    by auto
  have n: "89342 - snd (emu_world e) \<le> 3 * f_cpuCyclesRun f'"
      "3 * f_cpuCyclesRun f' < 89342 - snd (emu_world e) + 21"
    using f'(4,5) by (simp_all add: dotsPerFrame_def)
  have k: "snd (emu_world e) \<le> 20 \<longrightarrow> 29774 \<le> f_cpuCyclesRun f' \<and> f_cpuCyclesRun f' \<le> 29787"
    using n assms(5) by arith
  have z: "snd (emu_world e) = 0 \<longrightarrow> 29781 \<le> f_cpuCyclesRun f' \<and> f_cpuCyclesRun f' \<le> 29787"
    using n by arith
  have d: "0 \<le> snd (emu_world (f_emu f'))" "snd (emu_world (f_emu f')) \<le> 20"
    using n f'(6) by (simp_all add: dotsPerFrame_def)
  show ?thesis
    using f'(1,2,3,7,8,9) n k z d by (simp add: runFrame_def Let_def)
qed

theorem run_frame_one_frame_witness:
  "dotClock repoComponents \<and>
   (\<forall>w. 1 \<le> fst (cpuStep repoComponents w) \<and> fst (cpuStep repoComponents w) \<le> 7) \<and>
   emu_region (Emulator_new NTSC (bootMachine (\<lambda>_. 0), 0::int)) = NTSC \<and>
   emu_cpuCyclesPerFrame (Emulator_new NTSC (bootMachine (\<lambda>_. 0), 0::int)) = CPU_HZ NTSC / FPS NTSC \<and>
   snd (emu_world (Emulator_new NTSC (bootMachine (\<lambda>_. 0), 0::int))) = 0 \<and>
   (0::int) < dotsPerFrame \<and>
   (\<exists>st e'. runFrame repoComponents (Emulator_new NTSC (bootMachine (\<lambda>_. 0), 0::int)) = Some (st, e') \<and>
      framesCompleted st = 1 \<and>
      29781 \<le> cpuCyclesRun st \<and> cpuCyclesRun st \<le> 29787 \<and>
      ppuCyclesRun st = 3 * cpuCyclesRun st \<and>
      frameIndex st = 1 \<and>
      0 \<le> snd (emu_world e') \<and> snd (emu_world e') \<le> 20)"
proof -
  let ?e = "Emulator_new NTSC (bootMachine (\<lambda>_. 0), 0::int)"
  have C: "dotClock repoComponents"
    by (simp add: dotClock_def repoComponents_def split_beta)
  have c: "\<forall>w. 1 \<le> fst (cpuStep repoComponents w) \<and> fst (cpuStep repoComponents w) \<le> 7"
    by (simp add: repoComponents_def split_beta step_cycles)
  have r: "emu_region ?e = NTSC"
    by (simp add: Emulator_new_def)
  have t: "emu_cpuCyclesPerFrame ?e = CPU_HZ NTSC / FPS NTSC"
    by (simp add: Emulator_new_def)
  have d: "snd (emu_world ?e) = 0"
    by (simp add: Emulator_new_def)
  have d0: "0 \<le> snd (emu_world ?e)"
    by (simp add: d)
  have p: "(0::int) < dotsPerFrame"
    by (simp add: dotsPerFrame_def)
  have d1: "snd (emu_world ?e) < dotsPerFrame"
    by (simp add: d p)
  have z: "emu_frameCounter ?e = 0"
    by (simp add: Emulator_new_def)
  have "\<exists>st e'. runFrame repoComponents ?e = Some (st, e') \<and>
      framesCompleted st = 1 \<and>
      29781 \<le> cpuCyclesRun st \<and> cpuCyclesRun st \<le> 29787 \<and>
      ppuCyclesRun st = 3 * cpuCyclesRun st \<and>
      frameIndex st = 1 \<and>
      0 \<le> snd (emu_world e') \<and> snd (emu_world e') \<le> 20"
    using run_frame_one_frame [OF C c r t d0 d1] unfolding d z by auto
  then show ?thesis
    using C c r t d p by blast
qed

text \<open>
  C6 as stated fails on the cycle count. From power-on, with the repository's CPU on
  zero-filled memory (each opcode unhandled, 2 cycles) and a PPU of 341 dots on each of
  262 lines starting at dot 0, \<^verbatim>\<open>runFrame\<close> returns after 14891 instructions: one frame
  completed, 89346 PPU cycles, and 29782 CPU cycles, outside 29779 to 29781.
\<close>

theorem run_frame_cycles_counterexample:
  "map_option fst (runFrame repoComponents (Emulator_new NTSC (bootMachine (\<lambda>_. 0), 0))) =
     Some \<lparr>cpuCyclesRun = 29782, ppuCyclesRun = 89346, framesCompleted = 1, frameIndex = 1\<rparr> \<and>
   \<not> ((29779::int) \<le> 29782 \<and> (29782::int) \<le> 29781)"
proof -
  have "\<lparr>f_cpuCyclesRun = 0, f_ppuCyclesRun = 0, f_framesCompleted = 0,
         f_emu = Emulator_new NTSC (bootMachine (\<lambda>_. 0), 0)\<rparr> = idleFrame 0"
    by (simp add: idleFrame_def idleMachine_def bootMachine_def CPU_new_def)
  then show ?thesis
    using idle_loop [of 0]
    by (simp add: runFrame_def lastFrame_def Emulator_new_def)
qed

end
